theory Spec2Isabelle
  imports Main
begin

section \<open>JavaScript values the program relies on\<close>

text \<open>
  The sources are ECMAScript modules (they use \<^verbatim>\<open>import\<close> and \<^verbatim>\<open>export\<close>), hence
  strict-mode code. Every \<^verbatim>\<open>throw new Error(...)\<close> of the program is a constructor of
  \<open>error\<close> that keeps the interpolated values of the message; \<open>TypeError\<close> stands for the
  errors the engine itself raises (reading a property of \<^verbatim>\<open>undefined\<close> or \<^verbatim>\<open>null\<close>,
  assigning to a property of a frozen object, \<^verbatim>\<open>reduce\<close> of an empty array without an
  initial value).
\<close>

datatype error =
    AlreadyFolded string
  | NotEnoughMoney string int
  | CannotDeal int int
  | InvalidRank string
  | TypeError

text \<open>
  \<^verbatim>\<open>Array.prototype.slice\<close>: a negative index counts from the end of the array, and both
  indices are clamped to the array.
\<close>

definition rel_index :: "int \<Rightarrow> nat \<Rightarrow> nat" where
  "rel_index i len = (if i < 0 then nat (max (int len + i) 0) else min (nat i) len)"

definition slice :: "'a list \<Rightarrow> int \<Rightarrow> int \<Rightarrow> 'a list" where
  "slice xs start fin =
     (let k = rel_index start (length xs); final = rel_index fin (length xs)
      in take (final - k) (drop k xs))"

definition slice_from :: "'a list \<Rightarrow> int \<Rightarrow> 'a list" where
  "slice_from xs start = drop (rel_index start (length xs)) xs"

text \<open>\<^verbatim>\<open>xs[i]\<close> for a number \<open>i\<close>: \<^verbatim>\<open>undefined\<close> (here \<open>None\<close>) outside the array.\<close>

definition at :: "'a list \<Rightarrow> int \<Rightarrow> 'a option" where
  "at xs i = (if 0 \<le> i \<and> i < int (length xs) then Some (xs ! nat i) else None)"

text \<open>
  The remainder operator \<^verbatim>\<open>%\<close> on integers takes the sign of the dividend. The
  program divides by \<^verbatim>\<open>players.length\<close>; for a divisor 0 JavaScript gives \<^verbatim>\<open>NaN\<close>, which
  no array index equals, so any index outside the array models it.
\<close>

definition js_rem :: "int \<Rightarrow> int \<Rightarrow> int" where
  "js_rem a b = (if b = 0 then -1 else sgn a * (\<bar>a\<bar> mod \<bar>b\<bar>))"

section \<open>Cards (models/Cards.js)\<close>

text \<open>
  The four suit symbols of \<^verbatim>\<open>SUITS\<close>, in the order of the source: spades, hearts,
  diamonds, clubs. \<^verbatim>\<open>RANKS\<close> is the list of the thirteen rank symbols.
\<close>

datatype suit = Spades | Hearts | Diamonds | Clubs

definition SUITS :: "suit list" where
  "SUITS = [Spades, Hearts, Diamonds, Clubs]"

definition RANKS :: "string list" where
  "RANKS = map (\<lambda>c. [c]) ''23456789'' @ [''10'', ''J'', ''Q'', ''K'', ''A'']"

record card =
  crank :: string
  csuit :: suit
  cvalue :: nat

fun indexOf :: "'a list \<Rightarrow> 'a \<Rightarrow> nat option" where
  "indexOf [] x = None"
| "indexOf (y # ys) x = (if y = x then Some 0 else map_option Suc (indexOf ys x))"

text \<open>
  \<^verbatim>\<open>createCard\<close> rejects a rank outside \<^verbatim>\<open>RANKS\<close>; the type \<open>suit\<close> has no value outside
  \<^verbatim>\<open>SUITS\<close>. The card is frozen and no code of the program assigns to a card.
\<close>

definition createCard :: "string \<Rightarrow> suit \<Rightarrow> error + card" where
  "createCard r s =
     (case indexOf RANKS r of
        None \<Rightarrow> Inl (InvalidRank r)
      | Some i \<Rightarrow> Inr \<lparr>crank = r, csuit = s, cvalue = i + 2\<rparr>)"

definition compareCardsRank :: "card \<Rightarrow> card \<Rightarrow> int" where
  "compareCardsRank a b = int (cvalue a) - int (cvalue b)"

section \<open>Decks (models/Decks.js)\<close>

record deck =
  cards :: "card list"
  remaining :: int

definition dealCards :: "deck \<Rightarrow> int \<Rightarrow> error + (card list \<times> deck)" where
  "dealCards d count =
     (if count > remaining d then Inl (CannotDeal count (remaining d))
      else
        let dealtCards = slice (cards d) 0 count;
            remainingCards = slice_from (cards d) count
        in Inr (dealtCards, \<lparr>cards = remainingCards, remaining = int (length remainingCards)\<rparr>))"

text \<open>
  Every deck the program builds (\<^verbatim>\<open>createDeck\<close>, \<^verbatim>\<open>shuffleDeck\<close>, the remaining deck of
  \<^verbatim>\<open>dealCards\<close>) has its \<^verbatim>\<open>remaining\<close> field equal to the length of \<^verbatim>\<open>cards\<close>.
\<close>

definition deck_ok :: "deck \<Rightarrow> bool" where
  "deck_ok d = (remaining d = int (length (cards d)))"


section \<open>Players (models/Players.js)\<close>

text \<open>
  A player object has the properties \<^verbatim>\<open>id\<close>, \<^verbatim>\<open>name\<close>, \<^verbatim>\<open>chips\<close>, \<^verbatim>\<open>hand\<close>,
  \<^verbatim>\<open>currentBet\<close>, \<^verbatim>\<open>hasFolded\<close>, \<^verbatim>\<open>isInAllIn\<close> (and \<^verbatim>\<open>toString\<close>). The field
  \<open>frozen\<close> is the integrity level of the object: \<^verbatim>\<open>Object.freeze\<close> sets it, an object
  literal with a spread (\<^verbatim>\<open>{...p, currentBet: 0}\<close>) is a new object that is not frozen.
  An element of \<^verbatim>\<open>hand\<close> is whatever \<^verbatim>\<open>giveCard\<close> received as its first argument; the
  only caller passes the array \<^verbatim>\<open>dealtCards\<close>, so an element is a list of cards.
  The id comes from \<^verbatim>\<open>crypto.randomUUID()\<close> and is a parameter here.
\<close>

record player =
  pid :: string
  name :: string
  chips :: int
  hand :: "card list list"
  currentBet :: int
  hasFolded :: bool
  isInAllIn :: bool
  frozen :: bool

definition createPlayer :: "string \<Rightarrow> string \<Rightarrow> int \<Rightarrow> player" where
  "createPlayer uuid nm chps =
     \<lparr>pid = uuid, name = nm, chips = chps, hand = [], currentBet = 0,
      hasFolded = False, isInAllIn = False, frozen = True\<rparr>"

definition giveCard :: "card list \<Rightarrow> player \<Rightarrow> player" where
  "giveCard crd player = player\<lparr>hand := hand player @ [crd], frozen := True\<rparr>"

text \<open>
  \<^verbatim>\<open>placeBet\<close> assigns \<^verbatim>\<open>player.isInAllIn = true\<close> to its argument when the bet is the whole
  stack. In strict mode the assignment to a frozen object raises a TypeError; on an object
  that is not frozen it changes the argument itself. The result is therefore a pair: the
  argument object as the call leaves it, and the outcome (the error thrown, or the new
  frozen object returned).
\<close>

definition placeBet :: "player \<Rightarrow> int \<Rightarrow> player \<times> (error + player)" where
  "placeBet player amount =
     (if hasFolded player then (player, Inl (AlreadyFolded (name player)))
      else if amount > chips player then (player, Inl (NotEnoughMoney (name player) amount))
      else if chips player = amount then
        (if frozen player then (player, Inl TypeError)
         else
           let player' = player\<lparr>isInAllIn := True\<rparr>
           in (player', Inr (player'\<lparr>chips := chips player' - amount,
                                     isInAllIn := isInAllIn player',
                                     currentBet := currentBet player' + amount,
                                     frozen := True\<rparr>)))
      else (player, Inr (player\<lparr>chips := chips player - amount,
                                isInAllIn := isInAllIn player,
                                currentBet := currentBet player + amount,
                                frozen := True\<rparr>)))"

definition fold_hand :: "player \<Rightarrow> error + player" where
  "fold_hand player =
     (if hasFolded player then Inl (AlreadyFolded (name player))
      else Inr (player\<lparr>hasFolded := True, frozen := True\<rparr>))"

definition call :: "player \<Rightarrow> int \<Rightarrow> player \<times> (error + player)" where
  "call player currentCall =
     (let moneyToAdd = currentCall - currentBet player in placeBet player moneyToAdd)"

definition raise :: "player \<Rightarrow> int \<Rightarrow> player \<times> (error + player)" where
  "raise player rse =
     (let amountToRaise = rse - currentBet player in placeBet player amountToRaise)"

definition resetForNewHand :: "player \<Rightarrow> player" where
  "resetForNewHand player =
     player\<lparr>currentBet := 0, hasFolded := False, isInAllIn := False, hand := [], frozen := True\<rparr>"

definition addWiningMoney :: "player \<Rightarrow> int \<Rightarrow> player" where
  "addWiningMoney player money = player\<lparr>chips := chips player + money, frozen := True\<rparr>"

definition getActivePlayers :: "player list \<Rightarrow> player list" where
  "getActivePlayers ps = filter (\<lambda>player. \<not> hasFolded player) ps"

section \<open>The game state (services/GameService.js)\<close>

text \<open>
  The fields of the object \<^verbatim>\<open>createNewGame\<close> returns, without the delays and the
  readline handle. The table bet \<^verbatim>\<open>game.currentBet\<close> is \<open>g_currentBet\<close> (the name
  \<open>currentBet\<close> is the player's field); \<^verbatim>\<open>game.deck\<close> is \<^verbatim>\<open>null\<close> until a hand starts.
\<close>

record game =
  players :: "player list"
  gdeck :: "deck option"
  tableCard :: "card list"
  pot :: int
  currentPhase :: string
  g_currentBet :: int
  bigBlindPos :: int
  smallBlindPos :: int
  smallBlind :: int
  bigBlind :: int

text \<open>
  A function that changes the game and may throw returns the game as the call leaves it
  together with the error thrown, if any.
\<close>

subsection \<open>Dealing the hole cards (services/DealService.js)\<close>

text \<open>
  The callback of \<^verbatim>\<open>game.players.forEach\<close> in \<^verbatim>\<open>dealPlayers\<close>. \<^verbatim>\<open>newPlayer !== player\<close>
  and \<^verbatim>\<open>indexOf\<close> compare object identities; the players of a game are different objects
  with different ids, for which equality of the records decides identity.
\<close>

definition dealOne :: "game \<Rightarrow> player \<Rightarrow> game \<times> error option" where
  "dealOne g player =
     (case gdeck g of
        None \<Rightarrow> (g, Some TypeError)
      | Some d \<Rightarrow>
          (case dealCards d 1 of
             Inl e \<Rightarrow> (g, Some e)
           | Inr (dealtCards, remainingDeck) \<Rightarrow>
               let g1 = g\<lparr>gdeck := Some remainingDeck\<rparr>;
                   newPlayer = giveCard dealtCards player
               in if newPlayer \<noteq> player then
                    (case indexOf (players g1) player of
                       Some idx \<Rightarrow> (g1\<lparr>players := (players g1)[idx := newPlayer]\<rparr>, None)
                     | None \<Rightarrow> (g1, None))
                  else (g1, None)))"

text \<open>\<^verbatim>\<open>forEach\<close> visits the indices in order and reads each element when it visits it.\<close>

fun dealPass :: "nat list \<Rightarrow> game \<Rightarrow> game \<times> error option" where
  "dealPass [] g = (g, None)"
| "dealPass (k # ks) g =
     (case dealOne g (players g ! k) of
        (g', Some e) \<Rightarrow> (g', Some e)
      | (g', None) \<Rightarrow> dealPass ks g')"

definition dealPlayers :: "game \<Rightarrow> game \<times> error option" where
  "dealPlayers g =
     (case dealPass [0..<length (players g)] g of
        (g1, Some e) \<Rightarrow> (g1, Some e)
      | (g1, None) \<Rightarrow> dealPass [0..<length (players g1)] g1)"

subsection \<open>Blinds and actions\<close>

text \<open>
  \<^verbatim>\<open>blindBet\<close> passes the array elements themselves to \<^verbatim>\<open>placeBet\<close>, so the argument
  object as \<^verbatim>\<open>placeBet\<close> leaves it is what the array holds until the result replaces it.
  Reading a seat outside the array gives \<^verbatim>\<open>undefined\<close>, on which \<^verbatim>\<open>placeBet\<close> raises a
  TypeError.
\<close>

definition placeBetAt :: "game \<Rightarrow> int \<Rightarrow> int \<Rightarrow> game \<times> error option" where
  "placeBetAt g pos amount =
     (case at (players g) pos of
        None \<Rightarrow> (g, Some TypeError)
      | Some player \<Rightarrow>
          (case placeBet player amount of
             (player', Inl e) \<Rightarrow> (g\<lparr>players := (players g)[nat pos := player']\<rparr>, Some e)
           | (player', Inr newPlayer) \<Rightarrow> (g\<lparr>players := (players g)[nat pos := newPlayer]\<rparr>, None)))"

definition blindBet :: "game \<Rightarrow> game \<times> error option" where
  "blindBet g =
     (case placeBetAt g (bigBlindPos g) (bigBlind g) of
        (g1, Some e) \<Rightarrow> (g1, Some e)
      | (g1, None) \<Rightarrow>
          (case placeBetAt g1 (smallBlindPos g1) (smallBlind g1) of
             (g2, Some e) \<Rightarrow> (g2, Some e)
           | (g2, None) \<Rightarrow>
               (g2\<lparr>pot := smallBlind g2 + bigBlind g2, g_currentBet := bigBlind g2\<rparr>, None)))"

text \<open>
  The action objects \<^verbatim>\<open>{type, amount}\<close> the action-request collaborators return. The
  amount of a raise is the new table bet; the amount of a call is what the collaborator
  computed as \<^verbatim>\<open>game.currentBet - player.currentBet\<close>.
\<close>

datatype action = Fold | Check | Call int | Raise int

text \<open>
  \<^verbatim>\<open>processAction(game, player, action, playerIdx)\<close>. The result is the argument object
  \<^verbatim>\<open>player\<close> as the call leaves it, the game as the call leaves it, and the error thrown, if
  any. The right-hand side of \<^verbatim>\<open>game.players[playerIdx] = call(...)\<close> is evaluated before
  the store, and the statements after it run only when it returned. The only caller passes
  an index it has just read \<^verbatim>\<open>player\<close> from, so the store is inside the array.
\<close>

fun processAction :: "game \<Rightarrow> player \<Rightarrow> action \<Rightarrow> nat \<Rightarrow> player \<times> game \<times> error option" where
  "processAction g player Fold playerIdx =
     (case fold_hand player of
        Inl e \<Rightarrow> (player, g, Some e)
      | Inr newPlayer \<Rightarrow> (player, g\<lparr>players := (players g)[playerIdx := newPlayer]\<rparr>, None))"
| "processAction g player Check playerIdx = (player, g, None)"
| "processAction g player (Call amount) playerIdx =
     (case call player (g_currentBet g) of
        (player', Inl e) \<Rightarrow> (player', g, Some e)
      | (player', Inr newPlayer) \<Rightarrow>
          (player', g\<lparr>players := (players g)[playerIdx := newPlayer],
                      pot := pot g + amount\<rparr>, None))"
| "processAction g player (Raise amount) playerIdx =
     (case raise player amount of
        (player', Inl e) \<Rightarrow> (player', g, Some e)
      | (player', Inr newPlayer) \<Rightarrow>
          (player', g\<lparr>players := (players g)[playerIdx := newPlayer],
                      pot := pot g + (amount - currentBet player'),
                      g_currentBet := amount\<rparr>, None))"

text \<open>
  The chips an action asks of the player: what \<^verbatim>\<open>call\<close> and \<^verbatim>\<open>raise\<close> pass to
  \<^verbatim>\<open>placeBet\<close>.
\<close>

fun requiredChips :: "game \<Rightarrow> player \<Rightarrow> action \<Rightarrow> int option" where
  "requiredChips g player (Call amount) = Some (g_currentBet g - currentBet player)"
| "requiredChips g player (Raise amount) = Some (amount - currentBet player)"
| "requiredChips g player _ = None"

subsection \<open>The betting round\<close>

text \<open>
  Reading a property an object does not have gives \<^verbatim>\<open>undefined\<close>, which is falsy. No
  player object has a property \<^verbatim>\<open>folded\<close> or \<^verbatim>\<open>allIn\<close>: the flags are \<^verbatim>\<open>hasFolded\<close>
  and \<^verbatim>\<open>isInAllIn\<close>, and every player comes from \<open>createPlayer\<close> or from a spread copy of a
  player.
\<close>

datatype jsval = Undefined | JBool bool

fun truthy :: "jsval \<Rightarrow> bool" where
  "truthy Undefined = False"
| "truthy (JBool b) = b"

definition folded :: "player \<Rightarrow> jsval" where
  "folded player = Undefined"

definition allIn :: "player \<Rightarrow> jsval" where
  "allIn player = Undefined"

text \<open>The test \<^verbatim>\<open>if (player.folded || player.allIn)\<close> at the head of the loop body.\<close>

definition skipSeat :: "player \<Rightarrow> bool" where
  "skipSeat player = (truthy (folded player) \<or> truthy (allIn player))"

text \<open>
  A \<^verbatim>\<open>Set\<close> of ids is the list of its elements in insertion order, without repetition.
\<close>

definition set_add :: "'a \<Rightarrow> 'a list \<Rightarrow> 'a list" where
  "set_add x xs = (if x \<in> set xs then xs else xs @ [x])"

definition set_delete :: "'a \<Rightarrow> 'a list \<Rightarrow> 'a list" where
  "set_delete x xs = removeAll x xs"

definition new_Set :: "'a list \<Rightarrow> 'a list" where
  "new_Set xs = foldl (\<lambda>s x. set_add x s) [] xs"

text \<open>
  The local state of \<^verbatim>\<open>bettingRound\<close> while its loop runs. \<open>asked\<close> is not a variable of
  the source: it records, in order, each player object passed to the action-request
  collaborator (\<^verbatim>\<open>getAIAction\<close> or \<^verbatim>\<open>getHumanAction\<close>).
\<close>

record round_state =
  rgame :: game
  currentIdx :: int
  lastRaiserIdx :: int
  playersToAct :: "string list"
  asked :: "player list"

text \<open>
  The \<^verbatim>\<open>activePlayers.forEach\<close> that follows a raise. \<^verbatim>\<open>find\<close> gives \<^verbatim>\<open>undefined\<close> when no
  player has the id, and \<^verbatim>\<open>&&\<close> evaluates its right operand only when the left one holds.
\<close>

fun reopen :: "player list \<Rightarrow> game \<Rightarrow> player \<Rightarrow> string list \<Rightarrow> error + string list" where
  "reopen [] g player toAct = Inr toAct"
| "reopen (p # ps) g player toAct =
     (let playerToAdd = find (\<lambda>pl. pid pl = pid p) (players g)
      in if pid p \<noteq> pid player then
           (case playerToAdd of
              None \<Rightarrow> Inl TypeError
            | Some q \<Rightarrow>
                if \<not> hasFolded q \<and> \<not> isInAllIn q
                then reopen ps g player (set_add (pid p) toAct)
                else reopen ps g player toAct)
         else reopen ps g player toAct)"

datatype outcome = Continue round_state | Break round_state | Threw error round_state

text \<open>The end of the loop body: advance the seat, then leave the loop on a fold-out.\<close>

definition advance :: "round_state \<Rightarrow> outcome" where
  "advance st =
     (let st' = st\<lparr>currentIdx :=
                   js_rem (currentIdx st + 1) (int (length (players (rgame st))))\<rparr>
      in if length (getActivePlayers (players (rgame st'))) \<le> 1 then Break st'
         else Continue st')"

text \<open>
  The loop body from the action request on, for the player at the current seat and the
  action the collaborator answers. \<open>player\<close> is the array element, so when \<open>processAction\<close>
  throws the array holds the argument object as the call left it.
\<close>

definition act :: "player list \<Rightarrow> round_state \<Rightarrow> player \<Rightarrow> action \<Rightarrow> outcome" where
  "act activePlayers st player action =
     (let st0 = st\<lparr>asked := asked st @ [player]\<rparr>;
          idx = nat (currentIdx st)
      in case processAction (rgame st) player action idx of
           (player', g', Some e) \<Rightarrow>
             Threw e (st0\<lparr>rgame := g'\<lparr>players := (players g')[idx := player']\<rparr>\<rparr>)
         | (player', g', None) \<Rightarrow>
             let st1 = st0\<lparr>rgame := g',
                           playersToAct := set_delete (pid player') (playersToAct st0)\<rparr>
             in (case action of
                   Raise amount \<Rightarrow>
                     let st2 = st1\<lparr>lastRaiserIdx := currentIdx st1\<rparr>
                     in (case reopen activePlayers g' player' (playersToAct st2) of
                           Inl e \<Rightarrow> Threw e st2
                         | Inr toAct \<Rightarrow> advance (st2\<lparr>playersToAct := toAct\<rparr>))
                 | _ \<Rightarrow> advance st1))"

text \<open>The state after a loop body that ran to its end (no error thrown).\<close>

fun finished :: "outcome \<Rightarrow> round_state option" where
  "finished (Continue st) = Some st"
| "finished (Break st) = Some st"
| "finished (Threw e st) = None"

text \<open>
  The \<^verbatim>\<open>while (playersToAct.size > 0)\<close> loop. The answers of the collaborator are a
  script, consumed one per request; when the script is used up the request never resolves
  and the round does not return (\<open>None\<close>).
\<close>

function bettingLoop ::
  "player list \<Rightarrow> action list \<Rightarrow> round_state \<Rightarrow> (round_state \<times> error option) option" where
  "bettingLoop activePlayers script st =
     (if length (playersToAct st) > 0 then
        (case at (players (rgame st)) (currentIdx st) of
           None \<Rightarrow> Some (st, Some TypeError)
         | Some player \<Rightarrow>
             if skipSeat player then
               bettingLoop activePlayers script
                 (st\<lparr>currentIdx :=
                       js_rem (currentIdx st + 1) (int (length (players (rgame st))))\<rparr>)
             else
               (case script of
                  [] \<Rightarrow> None
                | action # rest \<Rightarrow>
                    (case act activePlayers st player action of
                       Threw e st' \<Rightarrow> Some (st', Some e)
                     | Break st' \<Rightarrow> Some (st', None)
                     | Continue st' \<Rightarrow> bettingLoop activePlayers rest st')))
      else Some (st, None))"
  by pat_completeness auto
termination
  by (relation "measure (\<lambda>(activePlayers, script, st). length script)")
     (auto simp: skipSeat_def folded_def allIn_def)

definition firstSeat :: "game \<Rightarrow> int" where
  "firstSeat g =
     (if currentPhase g = ''pre-flop''
      then js_rem (bigBlindPos g + 1) (int (length (players g)))
      else js_rem (smallBlindPos g + 1) (int (length (players g))))"

definition initialState :: "game \<Rightarrow> round_state" where
  "initialState g =
     \<lparr>rgame = g, currentIdx = firstSeat g, lastRaiserIdx = -1,
      playersToAct = new_Set (map pid (getActivePlayers (players g))), asked = []\<rparr>"

text \<open>
  \<^verbatim>\<open>bettingRound(game)\<close> for a script of answers: the game as the round leaves it, the
  players that were asked for an action, and the error thrown, if any.
\<close>

definition bettingRound :: "action list \<Rightarrow> game \<Rightarrow> (game \<times> player list \<times> error option) option" where
  "bettingRound script g =
     (let activePlayers = getActivePlayers (players g)
      in if length activePlayers \<le> 1 then Some (g, [], None)
         else
           (case bettingLoop activePlayers script (initialState g) of
              None \<Rightarrow> None
            | Some (st, Some e) \<Rightarrow> Some (rgame st, asked st, Some e)
            | Some (st, None) \<Rightarrow>
                Some ((rgame st)\<lparr>players :=
                         map (\<lambda>p. p\<lparr>currentBet := 0, frozen := False\<rparr>) (players (rgame st)),
                       g_currentBet := 0\<rparr>,
                      asked st, None)))"

text \<open>
  The states the loop can be in at its head, in a round started on \<open>g\<close>, whatever the
  collaborator answers.
\<close>

inductive reachable :: "game \<Rightarrow> round_state \<Rightarrow> bool" for g :: game where
  start: "1 < length (getActivePlayers (players g)) \<Longrightarrow> reachable g (initialState g)"
| skip: "reachable g st \<Longrightarrow> playersToAct st \<noteq> [] \<Longrightarrow>
         at (players (rgame st)) (currentIdx st) = Some player \<Longrightarrow> skipSeat player \<Longrightarrow>
         reachable g (st\<lparr>currentIdx :=
                          js_rem (currentIdx st + 1) (int (length (players (rgame st))))\<rparr>)"
| turn: "reachable g st \<Longrightarrow> playersToAct st \<noteq> [] \<Longrightarrow>
         at (players (rgame st)) (currentIdx st) = Some player \<Longrightarrow> \<not> skipSeat player \<Longrightarrow>
         act (getActivePlayers (players g)) st player action = Continue st' \<Longrightarrow>
         reachable g st'"

section \<open>The hand evaluator (services/HandEvaluator.js)\<close>

definition HIGH_CARD :: nat where "HIGH_CARD = 1"
definition PAIR :: nat where "PAIR = 2"
definition TWO_PAIR :: nat where "TWO_PAIR = 3"
definition THREE_OF_KIND :: nat where "THREE_OF_KIND = 4"
definition STRAIGHT :: nat where "STRAIGHT = 5"
definition FLUSH :: nat where "FLUSH = 6"
definition FULL_HOUSE :: nat where "FULL_HOUSE = 7"
definition FOUR_OF_KIND :: nat where "FOUR_OF_KIND = 8"
definition STRAIGHT_FLUSH :: nat where "STRAIGHT_FLUSH = 9"
definition ROYAL_FLUSH :: nat where "ROYAL_FLUSH = 10"

subsection \<open>Frequency maps\<close>

text \<open>
  \<^verbatim>\<open>countByRank\<close> builds an object whose keys are card values, by
  \<^verbatim>\<open>acc[k] = (acc[k] || 0) + 1\<close>. The keys of such an object are natural numbers, which
  \<^verbatim>\<open>Object.keys\<close> and \<^verbatim>\<open>Object.values\<close> enumerate in ascending numeric order: the object is
  the list of its (key, count) pairs in that order.
\<close>

fun bump :: "nat \<Rightarrow> (nat \<times> nat) list \<Rightarrow> (nat \<times> nat) list" where
  "bump k [] = [(k, 1)]"
| "bump k ((k', c) # rest) =
     (if k = k' then (k', c + 1) # rest
      else if k < k' then (k, 1) # (k', c) # rest
      else (k', c) # bump k rest)"

definition countByRank :: "card list \<Rightarrow> (nat \<times> nat) list" where
  "countByRank cs = foldl (\<lambda>acc crd. bump (cvalue crd) acc) [] cs"

text \<open>The keys, in the order of \<^verbatim>\<open>Object.keys\<close>, whose count is \<open>n\<close>.\<close>

definition keysWith :: "nat \<Rightarrow> (nat \<times> nat) list \<Rightarrow> nat list" where
  "keysWith n count = map fst (filter (\<lambda>kc. snd kc = n) count)"

text \<open>
  Numbers that may be \<^verbatim>\<open>undefined\<close> or \<^verbatim>\<open>NaN\<close> (\<open>None\<close>): \<^verbatim>\<open>xs[i]\<close> outside the array,
  \<^verbatim>\<open>parseInt(undefined)\<close>. A comparison with such a value is false.
\<close>

definition nth_opt :: "'a list \<Rightarrow> nat \<Rightarrow> 'a option" where
  "nth_opt xs i = (if i < length xs then Some (xs ! i) else None)"

fun js_gt :: "nat option \<Rightarrow> nat option \<Rightarrow> bool" where
  "js_gt (Some a) (Some b) = (a > b)"
| "js_gt _ _ = False"

fun js_lt :: "nat option \<Rightarrow> nat option \<Rightarrow> bool" where
  "js_lt (Some a) (Some b) = (a < b)"
| "js_lt _ _ = False"

subsection \<open>Classifying five cards\<close>

text \<open>
  \<^verbatim>\<open>Array.prototype.sort\<close> is stable and sorts the array in place. A function that sorts
  its argument returns the array as it leaves it, next to its result.
  \<open>sort_key\<close> is a stable insertion sort.
\<close>

definition sortAscending :: "card list \<Rightarrow> card list" where
  "sortAscending cs = sort_key cvalue cs"

definition sortDescending :: "card list \<Rightarrow> card list" where
  "sortDescending cs = sort_key (\<lambda>c. - int (cvalue c)) cs"

text \<open>
  \<^verbatim>\<open>cards.every((card, idx, arr) => idx === 0 || P(card, arr[idx - 1]))\<close>.
\<close>

fun everyAfterFirst :: "(card \<Rightarrow> card \<Rightarrow> bool) \<Rightarrow> card list \<Rightarrow> bool" where
  "everyAfterFirst P (prev # crd # rest) = (P crd prev \<and> everyAfterFirst P (crd # rest))"
| "everyAfterFirst P _ = True"

text \<open>
  A chain \<^verbatim>\<open>cards[i].value === v && ...\<close>: reading \<^verbatim>\<open>.value\<close> of a missing element raises a
  TypeError, and the chain stops at the first comparison that fails.
\<close>

fun valuesAre :: "card list \<Rightarrow> (int \<times> nat) list \<Rightarrow> error + bool" where
  "valuesAre cs [] = Inr True"
| "valuesAre cs ((i, v) # rest) =
     (case at cs i of
        None \<Rightarrow> Inl TypeError
      | Some c \<Rightarrow> if cvalue c = v then valuesAre cs rest else Inr False)"

definition isStraight :: "card list \<Rightarrow> card list \<times> (error + bool)" where
  "isStraight cs =
     (let sorted = sortAscending cs;
          isStraight = everyAfterFirst (\<lambda>crd prev. int (cvalue crd) - int (cvalue prev) = 1) sorted
      in case valuesAre sorted [(0, 2), (1, 3), (2, 4), (3, 5), (4, 14)] of
           Inl e \<Rightarrow> (sorted, Inl e)
         | Inr wheel \<Rightarrow> (sorted, Inr (if wheel then True else isStraight)))"

definition isFlush :: "card list \<Rightarrow> bool" where
  "isFlush cs = everyAfterFirst (\<lambda>crd prev. csuit crd = csuit prev) cs"

text \<open>
  \<^verbatim>\<open>count[keys[i]]\<close>: \<^verbatim>\<open>undefined\<close> when the object has fewer keys.
\<close>

definition isFullHouse :: "card list \<Rightarrow> (nat \<times> nat) list \<Rightarrow> bool" where
  "isFullHouse cs count =
     (let c0 = map_option snd (nth_opt count 0); c1 = map_option snd (nth_opt count 1)
      in (c0 = Some 2 \<and> c1 = Some 3) \<or> (c0 = Some 3 \<and> c1 = Some 2))"

text \<open>\<^verbatim>\<open>Math.max()\<close> of no values is \<^verbatim>\<open>-Infinity\<close>, which no count equals.\<close>

definition isOfKind :: "nat \<Rightarrow> (nat \<times> nat) list \<Rightarrow> bool" where
  "isOfKind number count =
     (case map snd count of
        [] \<Rightarrow> False
      | v # vs \<Rightarrow> foldl max v vs = number)"

definition isFlushRoyal :: "card list \<Rightarrow> error + bool" where
  "isFlushRoyal cs = valuesAre cs [(0, 10), (4, 14)]"

text \<open>
  \<^verbatim>\<open>getRank(cards)\<close>: the array as \<open>isStraight\<close> leaves it, and the rank or the error.
  \<open>isFlushRoyal\<close> is evaluated only when the hand is a straight and a flush.
\<close>

definition getRank :: "card list \<Rightarrow> card list \<times> (error + nat)" where
  "getRank cs =
     (case isStraight cs of
        (cs', Inl e) \<Rightarrow> (cs', Inl e)
      | (cs', Inr AreStraight) \<Rightarrow>
          let AreFlush = isFlush cs';
              counts = countByRank cs'
          in (case (if AreStraight \<and> AreFlush then isFlushRoyal cs' else Inr False) of
                Inl e \<Rightarrow> (cs', Inl e)
              | Inr royal \<Rightarrow>
                  (cs', Inr
                    (if royal then ROYAL_FLUSH
                     else if AreStraight \<and> AreFlush then STRAIGHT_FLUSH
                     else if isOfKind 4 counts then FOUR_OF_KIND
                     else if isFullHouse cs' counts then FULL_HOUSE
                     else if AreFlush then FLUSH
                     else if AreStraight then STRAIGHT
                     else if isOfKind 3 counts then THREE_OF_KIND
                     else if length (filter (\<lambda>el. el = 2) (map snd counts)) = 2 then TWO_PAIR
                     else if length (filter (\<lambda>el. el = 2) (map snd counts)) = 1 then PAIR
                     else HIGH_CARD))))"

text \<open>
  The wording of the specification for a straight, on the values sorted ascending:
  consecutive values differ by exactly 1, or the values are exactly 2, 3, 4, 5, 14.
\<close>

definition differByOne :: "nat list \<Rightarrow> bool" where
  "differByOne vs = (\<forall>i \<in> set [0..<length vs - 1]. int (vs ! Suc i) - int (vs ! i) = 1)"

definition straightValues :: "nat list \<Rightarrow> bool" where
  "straightValues vs = (differByOne vs \<or> vs = [2, 3, 4, 5, 14])"

subsection \<open>Arrays as objects\<close>

text \<open>
  \<open>bestRank\<close>, \<open>compareWithSameRank\<close> and \<open>compareHands\<close> sort arrays of cards in place,
  pass them on and compare them with \<^verbatim>\<open>===\<close>, so here an array of cards is an object of a
  store: a reference is an index into the list of all arrays allocated so far, and a new
  array (a literal, the result of \<^verbatim>\<open>slice\<close>, \<^verbatim>\<open>concat\<close>, \<^verbatim>\<open>map\<close> or a spread) goes to
  the end of the store. The cards themselves are frozen values.
\<close>

type_synonym ref = nat

type_synonym heap = "card list list"

definition alloc :: "card list \<Rightarrow> heap \<Rightarrow> ref \<times> heap" where
  "alloc cs h = (length h, h @ [cs])"

fun allocAll :: "card list list \<Rightarrow> heap \<Rightarrow> ref list \<times> heap" where
  "allocAll [] h = ([], h)"
| "allocAll (cs # rest) h =
     (let (r, h1) = alloc cs h; (rs, h2) = allocAll rest h1 in (r # rs, h2))"

definition getRankAt :: "ref \<Rightarrow> heap \<Rightarrow> heap \<times> (error + nat)" where
  "getRankAt r h = (case getRank (h ! r) of (cs', res) \<Rightarrow> (h[r := cs'], res))"

subsection \<open>Comparing two hands of the same rank\<close>

text \<open>
  The four helpers return one of their two arguments, or \<^verbatim>\<open>null\<close> (\<open>None\<close>).
  \<^verbatim>\<open>parseInt\<close> of the key found, or of \<^verbatim>\<open>undefined\<close> when no key has the count; the
  sorted lists of keys are read at positions 0 and 1.
\<close>

definition sortDesc :: "nat list \<Rightarrow> nat list" where
  "sortDesc vs = sort_key (\<lambda>v. - int v) vs"

definition comparePairs :: "ref \<Rightarrow> ref \<Rightarrow> heap \<Rightarrow> ref option" where
  "comparePairs pairA pairB h =
     (let countNew = countByRank (h ! pairA);
          countBest = countByRank (h ! pairB);
          pairValueNew = nth_opt (keysWith 2 countNew) 0;
          pairValueBest = nth_opt (keysWith 2 countBest) 0
      in if js_gt pairValueNew pairValueBest then Some pairA
         else if js_lt pairValueNew pairValueBest then Some pairB
         else None)"

definition compareTwoPairs :: "ref \<Rightarrow> ref \<Rightarrow> heap \<Rightarrow> ref option" where
  "compareTwoPairs twoPairA twoPairB h =
     (let countNew = countByRank (h ! twoPairA);
          countBest = countByRank (h ! twoPairB);
          pairsNew = sortDesc (keysWith 2 countNew);
          pairsBest = sortDesc (keysWith 2 countBest)
      in if js_gt (nth_opt pairsNew 0) (nth_opt pairsBest 0) then Some twoPairA
         else if js_lt (nth_opt pairsNew 0) (nth_opt pairsBest 0) then Some twoPairB
         else if js_gt (nth_opt pairsNew 1) (nth_opt pairsBest 1) then Some twoPairA
         else if js_lt (nth_opt pairsNew 1) (nth_opt pairsBest 1) then Some twoPairB
         else None)"

definition compareThreeOfKind :: "ref \<Rightarrow> ref \<Rightarrow> heap \<Rightarrow> ref option" where
  "compareThreeOfKind threeA threeB h =
     (let countNew = countByRank (h ! threeA);
          countBest = countByRank (h ! threeB);
          pairsNew = sortDesc (keysWith 3 countNew);
          pairsBest = sortDesc (keysWith 3 countBest)
      in if js_gt (nth_opt pairsNew 0) (nth_opt pairsBest 0) then Some threeA
         else if js_lt (nth_opt pairsNew 0) (nth_opt pairsBest 0) then Some threeB
         else None)"

definition compareFourOfKind :: "ref \<Rightarrow> ref \<Rightarrow> heap \<Rightarrow> ref option" where
  "compareFourOfKind fourA fourB h =
     (let countNew = countByRank (h ! fourA);
          countBest = countByRank (h ! fourB);
          pairsNew = sortDesc (keysWith 4 countNew);
          pairsBest = sortDesc (keysWith 4 countBest)
      in if js_gt (nth_opt pairsNew 0) (nth_opt pairsBest 0) then Some fourA
         else if js_lt (nth_opt pairsNew 0) (nth_opt pairsBest 0) then Some fourB
         else None)"

text \<open>
  The final loop of \<open>compareWithSameRank\<close> over the positions of \<^verbatim>\<open>newRank\<close>: \<open>True\<close> when
  \<^verbatim>\<open>newRank\<close> is returned, \<open>False\<close> when \<^verbatim>\<open>bestRank\<close> is; \<^verbatim>\<open>bestRank[i].value\<close> raises a
  TypeError when \<^verbatim>\<open>bestRank\<close> is the shorter array.
\<close>

fun firstDifference :: "card list \<Rightarrow> card list \<Rightarrow> error + bool" where
  "firstDifference [] bs = Inr False"
| "firstDifference (n # ns) [] = Inl TypeError"
| "firstDifference (n # ns) (b # bs) =
     (if int (cvalue n) - int (cvalue b) > 0 then Inr True
      else if int (cvalue n) - int (cvalue b) < 0 then Inr False
      else firstDifference ns bs)"

text \<open>The rank-specific comparisons at the head of \<open>compareWithSameRank\<close>, in order.\<close>

definition compareOfKind :: "ref \<Rightarrow> ref \<Rightarrow> nat option \<Rightarrow> heap \<Rightarrow> ref option" where
  "compareOfKind newRank bestRank rank h =
     (case (if rank = Some PAIR then comparePairs newRank bestRank h else None) of
        Some cmp \<Rightarrow> Some cmp
      | None \<Rightarrow>
     (case (if rank = Some TWO_PAIR then compareTwoPairs newRank bestRank h else None) of
        Some cmp \<Rightarrow> Some cmp
      | None \<Rightarrow>
     (case (if rank = Some THREE_OF_KIND then compareThreeOfKind newRank bestRank h else None) of
        Some cmp \<Rightarrow> Some cmp
      | None \<Rightarrow>
     (if rank = Some FOUR_OF_KIND then compareFourOfKind newRank bestRank h else None))))"

text \<open>
  \<^verbatim>\<open>compareWithSameRank(newRank, bestRank, rank)\<close>. A caller may leave \<^verbatim>\<open>rank\<close> out
  (\<^verbatim>\<open>undefined\<close>, here \<open>None\<close>) and may pass \<^verbatim>\<open>undefined\<close> for \<^verbatim>\<open>bestRank\<close>: then
  \<^verbatim>\<open>countByRank(undefined)\<close> raises a TypeError if a rank-specific helper runs, and
  otherwise \<^verbatim>\<open>bestRank.sort\<close> raises it after \<^verbatim>\<open>newRank\<close> has been sorted.
\<close>

definition compareWithSameRank ::
  "ref \<Rightarrow> ref option \<Rightarrow> nat option \<Rightarrow> heap \<Rightarrow> heap \<times> (error + ref)" where
  "compareWithSameRank newRank bestRank' rank h =
     (case bestRank' of
        None \<Rightarrow>
          if rank \<in> {Some PAIR, Some TWO_PAIR, Some THREE_OF_KIND, Some FOUR_OF_KIND}
          then (h, Inl TypeError)
          else (h[newRank := sortDescending (h ! newRank)], Inl TypeError)
      | Some bestRank \<Rightarrow>
          (case compareOfKind newRank bestRank rank h of
             Some cmp \<Rightarrow> (h, Inr cmp)
           | None \<Rightarrow>
               let h1 = h[newRank := sortDescending (h ! newRank)];
                   h2 = h1[bestRank := sortDescending (h1 ! bestRank)]
               in (case firstDifference (h2 ! newRank) (h2 ! bestRank) of
                     Inl e \<Rightarrow> (h2, Inl e)
                   | Inr True \<Rightarrow> (h2, Inr newRank)
                   | Inr False \<Rightarrow> (h2, Inr bestRank))))"

subsection \<open>The best five cards\<close>

text \<open>
  \<^verbatim>\<open>getAllCombinations(cards, combinationLength)\<close>: the references of the combinations,
  in order. When the length asked for is the length of \<^verbatim>\<open>cards\<close> the result holds the
  array \<^verbatim>\<open>cards\<close> itself.
\<close>

fun getAllCombinations :: "ref \<Rightarrow> nat \<Rightarrow> heap \<Rightarrow> ref list \<times> heap" where
  "getAllCombinations cardsRef combinationLength h =
     (let cs = h ! cardsRef
      in if combinationLength > length cs \<or> combinationLength < 1 then ([], h)
         else if combinationLength = length cs then ([cardsRef], h)
         else if combinationLength = 1 then allocAll (map (\<lambda>crd. [crd]) cs) h
         else
           foldl
             (\<lambda>acc i.
                let (head, h1) = alloc (slice cs (int i) (int i + 1)) (snd acc);
                    (rest, h2) = alloc (slice_from cs (int i + 1)) h1;
                    (tail, h3) = getAllCombinations rest (combinationLength - 1) h2;
                    (combos, h4) = allocAll (map (\<lambda>t. (h3 ! head) @ (h3 ! t)) tail) h3
                in (fst acc @ combos, h4))
             ([], h) [0..<length cs - combinationLength + 1])"

declare getAllCombinations.simps [simp del]

text \<open>
  The accumulator object of \<open>bestRank\<close>, \<^verbatim>\<open>{cards, rank}\<close>, and the callback of its
  \<^verbatim>\<open>reduce\<close>. Once an error is thrown no further callback runs.
\<close>

record best =
  bcards :: ref
  brank :: nat

fun bestStep :: "heap \<times> (error + best) \<Rightarrow> ref \<Rightarrow> heap \<times> (error + best)" where
  "bestStep (h, Inl e) cur = (h, Inl e)"
| "bestStep (h, Inr acc) cur =
     (case getRankAt cur h of
        (h1, Inl e) \<Rightarrow> (h1, Inl e)
      | (h1, Inr newRank) \<Rightarrow>
          if brank acc < newRank then (h1, Inr \<lparr>bcards = cur, brank = newRank\<rparr>)
          else if brank acc = newRank then
            (case compareWithSameRank cur (Some (bcards acc)) (Some newRank) h1 of
               (h2, Inl e) \<Rightarrow> (h2, Inl e)
             | (h2, Inr c) \<Rightarrow> (h2, Inr \<lparr>bcards = c, brank = newRank\<rparr>))
          else (h1, Inr acc))"

definition bestRank :: "ref \<Rightarrow> ref \<Rightarrow> heap \<Rightarrow> heap \<times> (error + best)" where
  "bestRank playerCards tableCards h =
     (let (allCards, h1) = alloc (h ! playerCards @ h ! tableCards) h;
          (allCombinations, h2) = getAllCombinations allCards 5 h1;
          (noCards, h3) = alloc [] h2
      in foldl bestStep (h3, Inr \<lparr>bcards = noCards, brank = 0\<rparr>) allCombinations)"

subsection \<open>The showdown\<close>

text \<open>
  An entry of the array \<open>compareHands\<close> receives: the player, the best five cards (an
  array) and \<^verbatim>\<open>evaluation.rank\<close>.
\<close>

record entry =
  eplayer :: player
  bestHand :: ref
  erank :: nat

text \<open>
  The keys of an object are strings: a rank used as a key is its decimal numeral, and
  \<^verbatim>\<open>a > b\<close> on two keys compares strings, code unit by code unit, a proper prefix being
  the smaller.
\<close>

definition digitChar :: "nat \<Rightarrow> char" where
  "digitChar d = char_of (d + 48)"

fun toString :: "nat \<Rightarrow> string" where
  "toString n = (if n < 10 then [digitChar n] else toString (n div 10) @ [digitChar (n mod 10)])"

declare toString.simps [simp del]

fun stringGreater :: "string \<Rightarrow> string \<Rightarrow> bool" where
  "stringGreater [] b = False"
| "stringGreater (x # xs) [] = True"
| "stringGreater (x # xs) (y # ys) =
     (if (of_char x :: nat) > of_char y then True
      else if (of_char x :: nat) < of_char y then False
      else stringGreater xs ys)"

text \<open>\<^verbatim>\<open>count[key]\<close> for a string key.\<close>

definition countAt :: "(nat \<times> nat) list \<Rightarrow> string \<Rightarrow> nat option" where
  "countAt count key = map_option snd (find (\<lambda>kc. toString (fst kc) = key) count)"

text \<open>
  The variable \<^verbatim>\<open>bestHand\<close> of the loop in \<open>compareHands\<close> first holds an entry and then
  what \<open>compareWithSameRank\<close> returned, an array of cards; \<^verbatim>\<open>bestHand.bestHand\<close> is the
  array of an entry and \<^verbatim>\<open>undefined\<close> on an array. The loop calls \<open>compareWithSameRank\<close>
  with two arguments.
\<close>

datatype handVar = AnEntry entry | Cards ref

fun bestHandOf :: "handVar \<Rightarrow> ref option" where
  "bestHandOf (AnEntry e) = Some (bestHand e)"
| "bestHandOf (Cards r) = None"

fun tieLoop :: "entry list \<Rightarrow> handVar \<Rightarrow> heap \<Rightarrow> heap \<times> (error + handVar)" where
  "tieLoop [] bestHnd h = (h, Inr bestHnd)"
| "tieLoop (e # rest) bestHnd h =
     (case compareWithSameRank (bestHand e) (bestHandOf bestHnd) None h of
        (h', Inl err) \<Rightarrow> (h', Inl err)
      | (h', Inr r) \<Rightarrow> tieLoop rest (Cards r) h')"

text \<open>
  \<^verbatim>\<open>compareHands(hands)\<close>: the array \<^verbatim>\<open>hands\<close> as the in-place sort leaves it, the store,
  and the entry returned (\<open>None\<close> for \<^verbatim>\<open>undefined\<close>) or the error thrown. \<^verbatim>\<open>reduce\<close> without
  an initial value raises a TypeError on an empty array; \<^verbatim>\<open>find\<close> compares the arrays by
  identity.
\<close>

definition compareHands :: "entry list \<Rightarrow> heap \<Rightarrow> entry list \<times> heap \<times> (error + entry option)" where
  "compareHands hands h =
     (let hands' = sort_key (\<lambda>e. - int (erank e)) hands;
          count = foldl (\<lambda>acc cur. bump (erank cur) acc) [] hands'
      in case map (\<lambda>kc. toString (fst kc)) count of
           [] \<Rightarrow> (hands', h, Inl TypeError)
         | k # ks \<Rightarrow>
             let maxKey = foldl (\<lambda>a b. if stringGreater a b then a else b) k ks;
                 winner = nth_opt hands' 0
             in if js_gt (countAt count maxKey) (Some 1) then
                  (case filter (\<lambda>e. toString (erank e) = maxKey) hands' of
                     [] \<Rightarrow> (hands', h, Inr None)
                   | first # others \<Rightarrow>
                       (case tieLoop others (AnEntry first) h of
                          (h', Inl e) \<Rightarrow> (hands', h', Inl e)
                        | (h', Inr (AnEntry b)) \<Rightarrow> (hands', h', Inr None)
                        | (h', Inr (Cards r)) \<Rightarrow>
                            (hands', h', Inr (find (\<lambda>e. bestHand e = r) hands'))))
                else (hands', h, Inr winner))"

section \<open>Concrete inputs\<close>

definition three_card_deck :: deck where
  "three_card_deck =
     \<lparr>cards = [\<lparr>crank = ''A'', csuit = Spades, cvalue = 14\<rparr>,
               \<lparr>crank = ''7'', csuit = Hearts, cvalue = 7\<rparr>,
               \<lparr>crank = ''2'', csuit = Clubs, cvalue = 2\<rparr>],
      remaining = 3\<rparr>"

definition blinds_game :: "int \<Rightarrow> int \<Rightarrow> game" where
  "blinds_game aliceChips bobChips =
     \<lparr>players = [createPlayer ''id-1'' ''Alice'' aliceChips, createPlayer ''id-2'' ''Bob'' bobChips],
      gdeck = None, tableCard = [], pot = 0, currentPhase = ''setup'', g_currentBet = 0,
      bigBlindPos = 1, smallBlindPos = 0, smallBlind = 10, bigBlind = 20\<rparr>"

definition four_card_deck :: deck where
  "four_card_deck =
     \<lparr>cards = [\<lparr>crank = ''A'', csuit = Spades, cvalue = 14\<rparr>,
               \<lparr>crank = ''7'', csuit = Hearts, cvalue = 7\<rparr>,
               \<lparr>crank = ''2'', csuit = Clubs, cvalue = 2\<rparr>,
               \<lparr>crank = ''K'', csuit = Diamonds, cvalue = 13\<rparr>],
      remaining = 4\<rparr>"

definition deal_game :: game where
  "deal_game = (blinds_game 1000 1000)\<lparr>gdeck := Some four_card_deck\<rparr>"

definition three_players :: game where
  "three_players =
     \<lparr>players = [createPlayer ''id-1'' ''Alice'' 1000, createPlayer ''id-2'' ''Bob'' 1000,
                 createPlayer ''id-3'' ''Carol'' 1000],
      gdeck = None, tableCard = [], pot = 0, currentPhase = ''setup'', g_currentBet = 0,
      bigBlindPos = 1, smallBlindPos = 0, smallBlind = 10, bigBlind = 20\<rparr>"

definition preflop_game :: game where
  "preflop_game = (fst (blindBet three_players))\<lparr>currentPhase := ''pre-flop''\<rparr>"

definition carol :: player where
  "carol = createPlayer ''id-3'' ''Carol'' 1000"

definition wheel_hand :: "card list" where
  "wheel_hand =
     [\<lparr>crank = ''A'', csuit = Spades, cvalue = 14\<rparr>,
      \<lparr>crank = ''2'', csuit = Hearts, cvalue = 2\<rparr>,
      \<lparr>crank = ''3'', csuit = Diamonds, cvalue = 3\<rparr>,
      \<lparr>crank = ''4'', csuit = Clubs, cvalue = 4\<rparr>,
      \<lparr>crank = ''5'', csuit = Spades, cvalue = 5\<rparr>]"

definition alice :: player where
  "alice = createPlayer ''id-1'' ''Alice'' 1000"

definition bob :: player where
  "bob = createPlayer ''id-2'' ''Bob'' 1000"

text \<open>
  A store with the hole cards of a player (king of spades, 2 of hearts) and five community
  cards (10, jack, queen, ace of spades, 2 of diamonds).
\<close>

definition hole_and_table :: heap where
  "hole_and_table =
     [[\<lparr>crank = ''K'', csuit = Spades, cvalue = 13\<rparr>,
       \<lparr>crank = ''2'', csuit = Hearts, cvalue = 2\<rparr>],
      [\<lparr>crank = ''10'', csuit = Spades, cvalue = 10\<rparr>,
       \<lparr>crank = ''J'', csuit = Spades, cvalue = 11\<rparr>,
       \<lparr>crank = ''Q'', csuit = Spades, cvalue = 12\<rparr>,
       \<lparr>crank = ''A'', csuit = Spades, cvalue = 14\<rparr>,
       \<lparr>crank = ''2'', csuit = Diamonds, cvalue = 2\<rparr>]]"

text \<open>
  Showdown on the board 3 of hearts, 2 of hearts, 9 of spades, jack of diamonds, 7 of
  clubs: Alice (3 and 4 of spades) has a pair of threes, Bob (ace of diamonds, 2 of clubs)
  a pair of twos. The store holds their best five cards.
\<close>

definition pairs_store :: heap where
  "pairs_store =
     [[\<lparr>crank = ''3'', csuit = Spades, cvalue = 3\<rparr>,
       \<lparr>crank = ''3'', csuit = Hearts, cvalue = 3\<rparr>,
       \<lparr>crank = ''J'', csuit = Diamonds, cvalue = 11\<rparr>,
       \<lparr>crank = ''9'', csuit = Spades, cvalue = 9\<rparr>,
       \<lparr>crank = ''7'', csuit = Clubs, cvalue = 7\<rparr>],
      [\<lparr>crank = ''2'', csuit = Clubs, cvalue = 2\<rparr>,
       \<lparr>crank = ''2'', csuit = Hearts, cvalue = 2\<rparr>,
       \<lparr>crank = ''A'', csuit = Diamonds, cvalue = 14\<rparr>,
       \<lparr>crank = ''J'', csuit = Diamonds, cvalue = 11\<rparr>,
       \<lparr>crank = ''9'', csuit = Spades, cvalue = 9\<rparr>]]"

definition pairs_showdown :: "entry list" where
  "pairs_showdown =
     [\<lparr>eplayer = alice, bestHand = 0, erank = PAIR\<rparr>,
      \<lparr>eplayer = bob, bestHand = 1, erank = PAIR\<rparr>]"

text \<open>
  Showdown on the board 10, jack, queen of spades, 2 of hearts, 2 of diamonds: Alice
  (king and ace of spades) has a royal flush, Bob and Carol each have the pair of twos of
  the board with queen, jack and 10.
\<close>

definition board_pair :: "card list" where
  "board_pair =
     [\<lparr>crank = ''2'', csuit = Hearts, cvalue = 2\<rparr>,
      \<lparr>crank = ''2'', csuit = Diamonds, cvalue = 2\<rparr>,
      \<lparr>crank = ''10'', csuit = Spades, cvalue = 10\<rparr>,
      \<lparr>crank = ''J'', csuit = Spades, cvalue = 11\<rparr>,
      \<lparr>crank = ''Q'', csuit = Spades, cvalue = 12\<rparr>]"

definition royal_store :: heap where
  "royal_store =
     [[\<lparr>crank = ''10'', csuit = Spades, cvalue = 10\<rparr>,
       \<lparr>crank = ''J'', csuit = Spades, cvalue = 11\<rparr>,
       \<lparr>crank = ''Q'', csuit = Spades, cvalue = 12\<rparr>,
       \<lparr>crank = ''K'', csuit = Spades, cvalue = 13\<rparr>,
       \<lparr>crank = ''A'', csuit = Spades, cvalue = 14\<rparr>],
      board_pair, board_pair]"

definition royal_showdown :: "entry list" where
  "royal_showdown =
     [\<lparr>eplayer = alice, bestHand = 0, erank = ROYAL_FLUSH\<rparr>,
      \<lparr>eplayer = bob, bestHand = 1, erank = PAIR\<rparr>,
      \<lparr>eplayer = carol, bestHand = 2, erank = PAIR\<rparr>]"

text \<open>
  Showdown on the same board with three players who all play the pair of twos of the
  board with queen, jack and 10.
\<close>

definition tied_store :: heap where
  "tied_store = [board_pair, board_pair, board_pair]"

definition tied_showdown :: "entry list" where
  "tied_showdown =
     [\<lparr>eplayer = alice, bestHand = 0, erank = PAIR\<rparr>,
      \<lparr>eplayer = bob, bestHand = 1, erank = PAIR\<rparr>,
      \<lparr>eplayer = carol, bestHand = 2, erank = PAIR\<rparr>]"

section \<open>Dealing from a deck\<close>

lemma slice_prefix: "0 \<le> k \<Longrightarrow> slice xs 0 k = take (nat k) xs"
  by (simp add: slice_def rel_index_def Let_def min_def)

lemma slice_from_drop: "0 \<le> k \<Longrightarrow> slice_from xs k = drop (nat k) xs"
  by (simp add: slice_from_def rel_index_def min_def)

text \<open>
  Claim C9. On a deck whose \<^verbatim>\<open>remaining\<close> field counts its cards, dealing a number
  \<open>k\<close> of cards with \<open>0 \<le> k \<le> remaining\<close> succeeds: the dealt cards are the first \<open>k\<close>
  cards in order (exactly \<open>k\<close> of them) and the new deck holds the rest, of length
  \<open>remaining - k\<close>. For \<open>k > remaining\<close> the call fails with the error of the source and
  returns no deck at all; \<open>dealCards\<close> never writes to its argument (it only takes slices).
\<close>

theorem dealCards_spec:
  "(deck_ok d \<and> 0 \<le> k \<and> k \<le> remaining d \<longrightarrow>
      (\<exists>dealt rest. dealCards d k = Inr (dealt, rest)
         \<and> dealt = take (nat k) (cards d) \<and> int (length dealt) = k
         \<and> cards rest = drop (nat k) (cards d)
         \<and> int (length (cards rest)) = remaining d - k
         \<and> remaining rest = remaining d - k))
   \<and> (k > remaining d \<longrightarrow> dealCards d k = Inl (CannotDeal k (remaining d)))"
  by (auto simp: dealCards_def deck_ok_def slice_prefix slice_from_drop Let_def)

theorem dealCards_spec_witness:
  "(deck_ok three_card_deck \<and> (0::int) \<le> 2 \<and> 2 \<le> remaining three_card_deck)
   \<and> (\<exists>dealt rest. dealCards three_card_deck 2 = Inr (dealt, rest)
         \<and> dealt = [\<lparr>crank = ''A'', csuit = Spades, cvalue = 14\<rparr>,
                     \<lparr>crank = ''7'', csuit = Hearts, cvalue = 7\<rparr>]
         \<and> cards rest = [\<lparr>crank = ''2'', csuit = Clubs, cvalue = 2\<rparr>]
         \<and> remaining rest = 1)
   \<and> 4 > remaining three_card_deck
   \<and> dealCards three_card_deck 4 = Inl (CannotDeal 4 3)"
  using dealCards_spec [of three_card_deck 2] dealCards_spec [of three_card_deck 4]
  by (auto simp: three_card_deck_def deck_ok_def)


section \<open>Dealing the hole cards\<close>

lemma indexOf_nth: "distinct xs \<Longrightarrow> k < length xs \<Longrightarrow> indexOf xs (xs ! k) = Some k"
proof (induction xs arbitrary: k)
  case Nil then show ?case by simp
next
  case (Cons x xs)
  show ?case
  proof (cases k)
    case 0 then show ?thesis by simp
  next
    case (Suc j)
    with Cons.prems have "xs ! j \<in> set xs" "x \<notin> set xs" "j < length xs" "distinct xs" by auto
    with Cons.IH[of j] Suc show ?thesis by auto
  qed
qed

lemma giveCard_neq: "giveCard c p \<noteq> p"
proof
  assume "giveCard c p = p"
  then have "hand (giveCard c p) = hand p" by simp
  then show False by (simp add: giveCard_def)
qed

lemma dealOne_ok:
  assumes "gdeck g = Some d" "deck_ok d" "cards d = c # cs"
    and "distinct (map pid (players g))" "k < length (players g)"
  shows "dealOne g (players g ! k) =
           (g\<lparr>gdeck := Some \<lparr>cards = cs, remaining = remaining d - 1\<rparr>,
              players := (players g)[k := giveCard [c] (players g ! k)]\<rparr>, None)"
proof -
  have d: "dealCards d 1 = Inr ([c], \<lparr>cards = cs, remaining = remaining d - 1\<rparr>)"
    using assms(2,3) by (simp add: dealCards_def deck_ok_def slice_def slice_from_def rel_index_def Let_def)
  have "distinct (players g)" using assms(4) by (simp add: distinct_map)
  then have i: "indexOf (players g) (players g ! k) = Some k" using assms(5) by (rule indexOf_nth)
  show ?thesis
    using assms(1) d i by (simp add: dealOne_def Let_def giveCard_neq)
qed

lemma dealPass_upt:
  assumes "gdeck g = Some d" "deck_ok d" "distinct (map pid (players g))"
    and "k \<le> length (players g)" "length (players g) - k \<le> length (cards d)"
  shows "dealPass [k..<length (players g)] g =
           (g\<lparr>gdeck := Some \<lparr>cards = drop (length (players g) - k) (cards d),
                              remaining = remaining d - int (length (players g) - k)\<rparr>,
              players := take k (players g) @
                 map2 (\<lambda>p c. giveCard [c] p) (drop k (players g)) (cards d)\<rparr>, None)"
  using assms
proof (induction "length (players g) - k" arbitrary: k g d)
  case 0
  then show ?case by (simp add: deck_ok_def)
next
  case (Suc m)
  let ?n = "length (players g)"
  from Suc.hyps(2) have kn: "k < ?n" by simp
  with Suc.prems(5) obtain c cs where cs: "cards d = c # cs" by (cases "cards d") auto
  let ?g' = "g\<lparr>gdeck := Some \<lparr>cards = cs, remaining = remaining d - 1\<rparr>,
              players := (players g)[k := giveCard [c] (players g ! k)]\<rparr>"
  have one: "dealOne g (players g ! k) = (?g', None)"
    using Suc.prems(1,2) cs Suc.prems(3) kn by (rule dealOne_ok)
  have ids: "map pid (players ?g') = map pid (players g)"
    using kn by (simp add: map_update giveCard_def list_update_same_conv)
  have ih: "dealPass [Suc k..<length (players ?g')] ?g' = 
     (?g'\<lparr>gdeck := Some \<lparr>cards = drop (length (players ?g') - Suc k) cs,
                              remaining = (remaining d - 1) - int (length (players ?g') - Suc k)\<rparr>,
              players := take (Suc k) (players ?g') @
                 map2 (\<lambda>p c. giveCard [c] p) (drop (Suc k) (players ?g')) cs\<rparr>, None)"
    using Suc.hyps(1)[of ?g' "Suc k" "\<lparr>cards = cs, remaining = remaining d - 1\<rparr>"]
      Suc.hyps(2) Suc.prems ids cs kn
    by (simp add: deck_ok_def)
  have len: "length (players ?g') = ?n" by simp
  have nk: "?n - k = Suc (?n - Suc k)" using kn by simp
  have up: "[k..<?n] = k # [Suc k..<?n]" using kn by (simp add: upt_conv_Cons)
  have dr: "drop k (players g) = (players g ! k) # drop (Suc k) (players g)"
    using kn by (simp add: Cons_nth_drop_Suc)
  have tk: "take (Suc k) (players ?g') = take k (players g) @ [giveCard [c] (players g ! k)]"
    using kn by (simp add: take_Suc_conv_app_nth)
  have "dealPass [k..<?n] g = dealPass [Suc k..<?n] ?g'"
    by (subst up) (simp only: dealPass.simps one prod.case option.case)
  also have "\<dots> = dealPass [Suc k..<length (players ?g')] ?g'" by (simp only: len)
  also note ih
  finally show ?case
    by (simp only: tk) (simp add: cs dr nk)
qed


lemma dealPass_all:
  assumes "gdeck g = Some d" "deck_ok d" "distinct (map pid (players g))"
    and "length (players g) \<le> length (cards d)"
  shows "dealPass [0..<length (players g)] g =
           (g\<lparr>gdeck := Some \<lparr>cards = drop (length (players g)) (cards d),
                              remaining = remaining d - int (length (players g))\<rparr>,
              players := map2 (\<lambda>p c. giveCard [c] p) (players g) (cards d)\<rparr>, None)"
  using dealPass_upt [of g d 0] assms by simp

text \<open>
  Claim C8. On a game whose players carry pairwise different ids and whose deck counts its
  cards and holds at least twice as many cards as there are players, \<open>dealPlayers\<close>
  completes, and every player's hand has grown by two elements: the one-element array
  dealt in the first pass and the one dealt in the second pass (the arrays \<^verbatim>\<open>dealtCards\<close>
  themselves, since \<open>giveCard\<close> appends its first argument as one element). A hand that was
  empty, as \<open>resetForNewHand\<close> leaves it, then has exactly two elements, each an array
  holding one card.
\<close>

theorem dealPlayers_hands:
  assumes "gdeck g = Some d" and "deck_ok d" and "distinct (map pid (players g))"
    and "2 * int (length (players g)) \<le> remaining d"
  shows "\<exists>g'. dealPlayers g = (g', None)
           \<and> length (players g') = length (players g)
           \<and> (\<forall>i < length (players g).
                 hand (players g' ! i) =
                   hand (players g ! i) @ [[cards d ! i], [cards d ! (length (players g) + i)]]
               \<and> (hand (players g ! i) = [] \<longrightarrow>
                     length (hand (players g' ! i)) = 2
                   \<and> (\<forall>e \<in> set (hand (players g' ! i)). length e = 1)))"
proof -
  let ?n = "length (players g)"
  let ?f = "\<lambda>p c. giveCard [c] p"
  let ?d1 = "\<lparr>cards = drop ?n (cards d), remaining = remaining d - int ?n\<rparr>"
  let ?g1 = "g\<lparr>gdeck := Some ?d1, players := map2 ?f (players g) (cards d)\<rparr>"
  have len: "2 * ?n \<le> length (cards d)" using assms(2,4) by (simp add: deck_ok_def)
  have p1: "dealPass [0..<?n] g = (?g1, None)"
    using assms(1-3) len by (intro dealPass_all) simp_all
  have n1: "length (players ?g1) = ?n" using len by simp
  have ids: "map pid (players ?g1) = map pid (players g)"
    using len by (auto simp: list_eq_iff_nth_eq giveCard_def)
  have p2: "dealPass [0..<length (players ?g1)] ?g1 =
           (?g1\<lparr>gdeck := Some \<lparr>cards = drop (length (players ?g1)) (cards ?d1),
                              remaining = remaining ?d1 - int (length (players ?g1))\<rparr>,
              players := map2 ?f (players ?g1) (cards ?d1)\<rparr>, None)"
    using len assms(2,3) ids by (intro dealPass_all) (simp_all add: deck_ok_def)
  let ?g2 = "?g1\<lparr>gdeck := Some \<lparr>cards = drop (length (players ?g1)) (cards ?d1),
                              remaining = remaining ?d1 - int (length (players ?g1))\<rparr>,
              players := map2 ?f (players ?g1) (cards ?d1)\<rparr>"
  have run: "dealPlayers g = (?g2, None)"
    unfolding dealPlayers_def by (simp only: p1 p2 prod.case option.case)
  have hands: "hand (players ?g2 ! i) =
                 hand (players g ! i) @ [[cards d ! i], [cards d ! (?n + i)]]" if "i < ?n" for i
    using that len by (simp add: giveCard_def)
  show ?thesis
    using run hands len by (intro exI [of _ ?g2]) simp
qed

theorem dealPlayers_hands_witness:
  "\<exists>g'. dealPlayers deal_game = (g', None)
      \<and> hand (players g' ! 0) = [[\<lparr>crank = ''A'', csuit = Spades, cvalue = 14\<rparr>],
                                  [\<lparr>crank = ''2'', csuit = Clubs, cvalue = 2\<rparr>]]
      \<and> hand (players g' ! 1) = [[\<lparr>crank = ''7'', csuit = Hearts, cvalue = 7\<rparr>],
                                  [\<lparr>crank = ''K'', csuit = Diamonds, cvalue = 13\<rparr>]]"
proof -
  have a: "gdeck deal_game = Some four_card_deck" "deck_ok four_card_deck"
    "distinct (map pid (players deal_game))"
    "2 * int (length (players deal_game)) \<le> remaining four_card_deck"
    by (simp_all add: deal_game_def blinds_game_def four_card_deck_def deck_ok_def createPlayer_def)
  have b: "length (players deal_game) = 2" "hand (players deal_game ! 0) = []"
    "hand (players deal_game ! Suc 0) = []"
    by (simp_all add: deal_game_def blinds_game_def createPlayer_def)
  from dealPlayers_hands [OF a] obtain g' where
    r: "dealPlayers deal_game = (g', None)"
    and h: "\<forall>i<length (players deal_game).
              hand (players g' ! i) = hand (players deal_game ! i) @
                [[cards four_card_deck ! i], [cards four_card_deck ! (length (players deal_game) + i)]]
              \<and> (hand (players deal_game ! i) = [] \<longrightarrow> length (hand (players g' ! i)) = 2
                    \<and> (\<forall>e\<in>set (hand (players g' ! i)). length e = 1))"
    by blast
  from h [rule_format, of 0] h [rule_format, of 1]
  have "hand (players g' ! 0) = [[cards four_card_deck ! 0], [cards four_card_deck ! 2]]"
    and "hand (players g' ! 1) = [[cards four_card_deck ! 1], [cards four_card_deck ! 3]]"
    by (simp_all add: b)
  with r show ?thesis by (simp add: four_card_deck_def)
qed

section \<open>Calls, raises and blinds\<close>

lemma call_effect:
  assumes "\<not> hasFolded player" and "currentCall - currentBet player = amount"
  shows "amount < chips player \<Longrightarrow>
           call player currentCall =
             (player, Inr (player\<lparr>chips := chips player - amount,
                                  currentBet := currentBet player + amount, frozen := True\<rparr>))"
    and "amount = chips player \<Longrightarrow> \<not> frozen player \<Longrightarrow>
           call player currentCall =
             (player\<lparr>isInAllIn := True\<rparr>,
              Inr (player\<lparr>chips := 0, isInAllIn := True,
                          currentBet := currentBet player + amount, frozen := True\<rparr>))"
    and "amount = chips player \<Longrightarrow> frozen player \<Longrightarrow>
           call player currentCall = (player, Inl TypeError)"
  using assms by (auto simp: call_def placeBet_def Let_def)

text \<open>
  Claim C3 (the code departs from it). Every object \<open>createPlayer\<close>, \<open>giveCard\<close>,
  \<open>placeBet\<close>, \<open>fold_hand\<close> and \<open>resetForNewHand\<close> return is frozen. A call for the whole
  stack of such a player does not succeed: the assignment that should set the all-in flag
  raises a TypeError, and no new player is returned. (Lemma \<open>call_effect\<close> gives the three
  cases of a call by a player who has not folded.)
\<close>

theorem call_all_in_frozen_player:
  "call (createPlayer ''id-1'' ''Alice'' 1000) 1000
     = (createPlayer ''id-1'' ''Alice'' 1000, Inl TypeError)"
  by (simp add: call_def placeBet_def createPlayer_def)

text \<open>
  Claim C4. A call or raise that asks for more chips than the player holds fails with an
  error (the not-enough-money error, or the already-folded error when the player has
  folded), and at that moment nothing has been written: \<open>processAction\<close> leaves the
  argument player (stack, bet, flags) and the whole game (players, pot, table bet) as they
  were.
\<close>

theorem invalid_action_atomic:
  assumes "requiredChips g player action = Some amount" and "amount > chips player"
  shows "\<exists>e. processAction g player action playerIdx = (player, g, Some e)
           \<and> (e = AlreadyFolded (name player) \<or> e = NotEnoughMoney (name player) amount)"
  using assms by (cases action) (auto simp: call_def raise_def placeBet_def Let_def)


theorem invalid_action_atomic_witness:
  "processAction (blinds_game 1000 500) (createPlayer ''id-2'' ''Bob'' 500) (Raise 600) 1
     = (createPlayer ''id-2'' ''Bob'' 500, blinds_game 1000 500, Some (NotEnoughMoney ''Bob'' 600))
   \<and> processAction ((blinds_game 1000 500)\<lparr>g_currentBet := 700\<rparr>)
        (createPlayer ''id-2'' ''Bob'' 500) (Call 700) 1
     = (createPlayer ''id-2'' ''Bob'' 500, (blinds_game 1000 500)\<lparr>g_currentBet := 700\<rparr>,
        Some (NotEnoughMoney ''Bob'' 700))"
  using invalid_action_atomic [of "blinds_game 1000 500" "createPlayer ''id-2'' ''Bob'' 500"
          "Raise 600" 600 1]
        invalid_action_atomic [of "(blinds_game 1000 500)\<lparr>g_currentBet := 700\<rparr>"
          "createPlayer ''id-2'' ''Bob'' 500" "Call 700" 700 1]
  by (simp add: createPlayer_def raise_def call_def placeBet_def)

text \<open>
  Claim C5 fails as stated: \<open>blindBet\<close> posts each blind through \<open>placeBet\<close>, whose stack
  check applies to blinds as to any bet. With a big blind of 20 and a big-blind player
  holding 5 chips, \<open>blindBet\<close> throws the not-enough-money error; the pot is not set.
\<close>

theorem blindBet_short_stack_fails:
  "blindBet (blinds_game 1000 5) = (blinds_game 1000 5, Some (NotEnoughMoney ''Bob'' 20))"
  by (simp add: blindBet_def placeBetAt_def placeBet_def at_def blinds_game_def createPlayer_def)

lemma placeBetAt_ok:
  assumes "at (players g) pos = Some p" "\<not> hasFolded p" "amount < chips p"
  shows "placeBetAt g pos amount =
     (g\<lparr>players := (players g)[nat pos := p\<lparr>chips := chips p - amount,
            currentBet := currentBet p + amount, frozen := True\<rparr>]\<rparr>, None)"
  using assms by (simp add: placeBetAt_def placeBet_def)

lemma placeBetAt_short:
  assumes "at (players g) pos = Some p" "\<not> hasFolded p" "chips p < amount"
  shows "placeBetAt g pos amount = (g, Some (NotEnoughMoney (name p) amount))"
proof -
  have "(players g)[nat pos := p] = players g"
    using assms(1) by (auto simp: at_def split: if_splits)
  then show ?thesis using assms by (simp add: placeBetAt_def placeBet_def)
qed

text \<open>
  Claim C5 as amended. For blind players on two different seats who have not folded:
  when each holds more chips than their blind, \<open>blindBet\<close> succeeds, each stack drops and
  each bet grows by the blind, the pot becomes \<open>smallBlind + bigBlind\<close> and the table bet
  becomes \<open>bigBlind\<close>; when the big-blind player holds fewer chips than the big blind,
  \<open>blindBet\<close> fails with the not-enough-money error before any change; when the big blind
  was posted and the small-blind player holds fewer chips than the small blind, \<open>blindBet\<close>
  fails with the not-enough-money error.
\<close>

theorem blindBet_checks_stack:
  assumes "at (players g) (bigBlindPos g) = Some bb"
    and "at (players g) (smallBlindPos g) = Some sb"
    and "bigBlindPos g \<noteq> smallBlindPos g"
    and "\<not> hasFolded bb" and "\<not> hasFolded sb"
  shows "(bigBlind g < chips bb \<and> smallBlind g < chips sb \<longrightarrow>
           (\<exists>g'. blindBet g = (g', None)
              \<and> pot g' = smallBlind g + bigBlind g \<and> g_currentBet g' = bigBlind g
              \<and> at (players g') (bigBlindPos g) =
                   Some (bb\<lparr>chips := chips bb - bigBlind g,
                            currentBet := currentBet bb + bigBlind g, frozen := True\<rparr>)
              \<and> at (players g') (smallBlindPos g) =
                   Some (sb\<lparr>chips := chips sb - smallBlind g,
                            currentBet := currentBet sb + smallBlind g, frozen := True\<rparr>)))
       \<and> (chips bb < bigBlind g \<longrightarrow>
            blindBet g = (g, Some (NotEnoughMoney (name bb) (bigBlind g))))
       \<and> (bigBlind g < chips bb \<and> chips sb < smallBlind g \<longrightarrow>
            snd (blindBet g) = Some (NotEnoughMoney (name sb) (smallBlind g)))"
proof (intro conjI impI)
  assume a: "bigBlind g < chips bb \<and> smallBlind g < chips sb"
  let ?bb' = "bb\<lparr>chips := chips bb - bigBlind g, currentBet := currentBet bb + bigBlind g, frozen := True\<rparr>"
  let ?g1 = "g\<lparr>players := (players g)[nat (bigBlindPos g) := ?bb']\<rparr>"
  have 1: "placeBetAt g (bigBlindPos g) (bigBlind g) = (?g1, None)"
    using assms(1,4) a by (simp add: placeBetAt_ok)
  have sb1: "at (players ?g1) (smallBlindPos ?g1) = Some sb"
    using assms(1,2,3) by (auto simp: at_def split: if_splits)
  have 2: "placeBetAt ?g1 (smallBlindPos ?g1) (smallBlind ?g1) =
     (?g1\<lparr>players := (players ?g1)[nat (smallBlindPos ?g1) := sb\<lparr>chips := chips sb - smallBlind ?g1,
            currentBet := currentBet sb + smallBlind ?g1, frozen := True\<rparr>]\<rparr>, None)"
    using sb1 assms(5) a by (intro placeBetAt_ok) simp_all
  show "\<exists>g'. blindBet g = (g', None)
              \<and> pot g' = smallBlind g + bigBlind g \<and> g_currentBet g' = bigBlind g
              \<and> at (players g') (bigBlindPos g) = Some ?bb'
              \<and> at (players g') (smallBlindPos g) =
                   Some (sb\<lparr>chips := chips sb - smallBlind g,
                            currentBet := currentBet sb + smallBlind g, frozen := True\<rparr>)"
    unfolding blindBet_def
    apply (simp only: 1 2 prod.case option.case)
    using assms(1,2,3) by (auto simp: at_def split: if_splits)
next
  assume "chips bb < bigBlind g"
  then show "blindBet g = (g, Some (NotEnoughMoney (name bb) (bigBlind g)))"
    using assms(1,4) by (simp add: blindBet_def placeBetAt_short)
next
  assume a: "bigBlind g < chips bb \<and> chips sb < smallBlind g"
  let ?bb' = "bb\<lparr>chips := chips bb - bigBlind g, currentBet := currentBet bb + bigBlind g, frozen := True\<rparr>"
  let ?g1 = "g\<lparr>players := (players g)[nat (bigBlindPos g) := ?bb']\<rparr>"
  have 1: "placeBetAt g (bigBlindPos g) (bigBlind g) = (?g1, None)"
    using assms(1,4) a by (simp add: placeBetAt_ok)
  have sb1: "at (players ?g1) (smallBlindPos ?g1) = Some sb"
    using assms(1,2,3) by (auto simp: at_def split: if_splits)
  have 2: "placeBetAt ?g1 (smallBlindPos ?g1) (smallBlind ?g1) =
             (?g1, Some (NotEnoughMoney (name sb) (smallBlind ?g1)))"
    using sb1 assms(5) a by (intro placeBetAt_short) simp_all
  show "snd (blindBet g) = Some (NotEnoughMoney (name sb) (smallBlind g))"
    unfolding blindBet_def by (simp only: 1 2 prod.case option.case) simp
qed

theorem blindBet_checks_stack_witness:
  "(\<exists>g'. blindBet (blinds_game 1000 500) = (g', None) \<and> pot g' = 30 \<and> g_currentBet g' = 20
      \<and> at (players g') 1 =
           Some ((createPlayer ''id-2'' ''Bob'' 500)\<lparr>chips := 480, currentBet := 20, frozen := True\<rparr>)
      \<and> at (players g') 0 =
           Some ((createPlayer ''id-1'' ''Alice'' 1000)\<lparr>chips := 990, currentBet := 10, frozen := True\<rparr>))
   \<and> blindBet (blinds_game 1000 5) = (blinds_game 1000 5, Some (NotEnoughMoney ''Bob'' 20))
   \<and> snd (blindBet (blinds_game 5 1000)) = Some (NotEnoughMoney ''Alice'' 10)"
proof -
  have a: "at (players (blinds_game x y)) (bigBlindPos (blinds_game x y)) = Some (createPlayer ''id-2'' ''Bob'' y)"
    and b: "at (players (blinds_game x y)) (smallBlindPos (blinds_game x y)) = Some (createPlayer ''id-1'' ''Alice'' x)"
    and c: "bigBlindPos (blinds_game x y) \<noteq> smallBlindPos (blinds_game x y)"
    and d: "\<not> hasFolded (createPlayer ''id-2'' ''Bob'' y)" "\<not> hasFolded (createPlayer ''id-1'' ''Alice'' x)"
    and e: "bigBlind (blinds_game x y) = 20" "smallBlind (blinds_game x y) = 10"
       "bigBlindPos (blinds_game x y) = 1" "smallBlindPos (blinds_game x y) = 0"
       "chips (createPlayer i n x) = x" "currentBet (createPlayer i n x) = 0" "name (createPlayer i n x) = n"
    for x y i n
    by (simp_all add: blinds_game_def createPlayer_def at_def)
  show ?thesis
    using blindBet_checks_stack [OF a b c d, of 1000 500]
          blindBet_checks_stack [OF a b c d, of 1000 5]
          blindBet_checks_stack [OF a b c d, of 5 1000]
    by (simp add: e)
qed



section \<open>The betting round\<close>

text \<open>
  No seat is skipped, and a turn of the loop on a pending set that is not empty is \<open>act\<close>
  on the player at the current seat with the next answer of the collaborator.
\<close>

lemma skipSeat_never: "\<not> skipSeat player"
  by (simp add: skipSeat_def folded_def allIn_def)

lemma bettingLoop_turn:
  assumes "playersToAct st \<noteq> []" and "at (players (rgame st)) (currentIdx st) = Some player"
  shows "bettingLoop activePlayers (action # rest) st =
           (case act activePlayers st player action of
              Threw e st' \<Rightarrow> Some (st', Some e)
            | Break st' \<Rightarrow> Some (st', None)
            | Continue st' \<Rightarrow> bettingLoop activePlayers rest st')"
  using assms by (subst bettingLoop.simps) (simp add: skipSeat_never)

lemma find_by_key:
  "distinct (map f xs) \<Longrightarrow> x \<in> set xs \<Longrightarrow> find (\<lambda>y. f y = f x) xs = Some x"
  by (induction xs) (auto simp: image_iff)

lemma reopen_mono: "reopen ps g P toAct = Inr r \<Longrightarrow> set toAct \<subseteq> set r"
proof (induction ps arbitrary: toAct)
  case Nil then show ?case by simp
next
  case (Cons p ps)
  from Cons.prems show ?case
    by (auto simp: Let_def set_add_def split: if_splits option.splits dest!: Cons.IH)
qed

lemma reopen_adds:
  assumes "reopen ps g P toAct = Inr r" and "p \<in> set ps" and "pid p \<noteq> pid P"
    and "find (\<lambda>pl. pid pl = pid p) (players g) = Some q"
    and "\<not> hasFolded q" and "\<not> isInAllIn q"
  shows "pid p \<in> set r"
  using assms(1,2)
proof (induction ps arbitrary: toAct)
  case Nil then show ?case by simp
next
  case (Cons a ps)
  show ?case
  proof (cases "a = p")
    case True
    with Cons.prems(1) assms(3-6)
    have "reopen ps g P (set_add (pid p) toAct) = Inr r" by (simp add: Let_def)
    from reopen_mono [OF this] show ?thesis by (auto simp: set_add_def split: if_splits)
  next
    case False
    with Cons.prems(2) have "p \<in> set ps" by simp
    with Cons.prems(1) Cons.IH show ?thesis
      by (auto simp: Let_def split: if_splits option.splits)
  qed
qed

lemma placeBet_keeps:
  "placeBet p amount = (p', Inr np) \<Longrightarrow>
     pid p' = pid p \<and> pid np = pid p \<and> hasFolded np = hasFolded p"
  by (auto simp: placeBet_def Let_def split: if_splits)

lemma processAction_players:
  assumes "processAction g player action idx = (player', g', None)"
    and "idx < length (players g)" and "players g ! idx = player"
  shows "map pid (players g') = map pid (players g)"
    and "\<forall>i < length (players g). \<not> hasFolded (players g' ! i) \<longrightarrow> \<not> hasFolded (players g ! i)"
    and "pid player' = pid player"
proof -
  have "\<exists>np. players g' = (players g)[idx := np] \<and> pid np = pid player
            \<and> (hasFolded player \<longrightarrow> hasFolded np) \<and> pid player' = pid player"
  proof (cases action)
    case Fold
    with assms show ?thesis
      by (auto simp: fold_hand_def split: if_splits)
  next
    case Check
    with assms show ?thesis
      by (intro exI [of _ player]) auto
  next
    case (Call a)
    with assms show ?thesis
      by (auto simp: call_def Let_def split: prod.splits sum.splits dest!: placeBet_keeps)
  next
    case (Raise a)
    with assms show ?thesis
      by (auto simp: raise_def Let_def split: prod.splits sum.splits dest!: placeBet_keeps)
  qed
  then obtain np where np: "players g' = (players g)[idx := np]" "pid np = pid player"
      "hasFolded player \<longrightarrow> hasFolded np" "pid player' = pid player" by blast
  show "map pid (players g') = map pid (players g)"
    using np(1,2) assms(2,3) by (simp add: map_update list_update_same_conv)
  show "\<forall>i < length (players g). \<not> hasFolded (players g' ! i) \<longrightarrow> \<not> hasFolded (players g ! i)"
    using np(1,3) assms(2,3) by (auto simp: nth_list_update)
  show "pid player' = pid player" by (rule np(4))
qed

lemma processAction_raise_bet:
  "processAction g p (Raise a) i = (p', g', None) \<Longrightarrow> g_currentBet g' = a"
  by (auto split: prod.splits sum.splits)

lemma advance_game: "finished (advance st) = Some st' \<Longrightarrow>
   rgame st' = rgame st \<and> playersToAct st' = playersToAct st"
  by (auto simp: advance_def Let_def split: if_splits)

lemma act_finished:
  assumes "finished (act aps st player action) = Some st'"
  shows "\<exists>player'. processAction (rgame st) player action (nat (currentIdx st))
                      = (player', rgame st', None)
           \<and> (case action of
                 Raise amount \<Rightarrow>
                   reopen aps (rgame st') player' (set_delete (pid player') (playersToAct st))
                     = Inr (playersToAct st')
               | _ \<Rightarrow> playersToAct st' = set_delete (pid player') (playersToAct st))"
  using assms
  by (cases action)
     (auto simp: act_def Let_def split: prod.splits option.splits sum.splits dest!: advance_game)

lemma at_Some: "at xs i = Some x \<Longrightarrow> nat i < length xs \<and> xs ! nat i = x"
  by (auto simp: at_def split: if_splits)

lemma reachable_players:
  assumes "reachable g st"
  shows "map pid (players (rgame st)) = map pid (players g)
       \<and> (\<forall>i < length (players g).
             \<not> hasFolded (players (rgame st) ! i) \<longrightarrow> \<not> hasFolded (players g ! i))"
  using assms
proof (induction rule: reachable.induct)
  case start
  show ?case by (simp add: initialState_def)
next
  case (skip st player)
  then show ?case by simp
next
  case (turn st player action st')
  from turn.hyps(5) have "finished (act (getActivePlayers (players g)) st player action) = Some st'"
    by simp
  from act_finished [OF this] obtain player' where
    pa: "processAction (rgame st) player action (nat (currentIdx st)) = (player', rgame st', None)"
    by blast
  note a = at_Some [OF turn.hyps(3)]
  have len: "length (players (rgame st)) = length (players g)"
    using turn.IH by (metis length_map)
  from processAction_players(1,2) [OF pa conjunct1 [OF a] conjunct2 [OF a]] turn.IH len
  show ?case by auto
qed

text \<open>
  Claim C1. In a betting round started on a game whose players carry pairwise different
  ids, take any state the loop can reach and any action of the player \<open>P\<close> at the current
  seat that is processed without an error (a turn of the loop, see \<open>bettingLoop_turn\<close>). If the action is a raise, then right after the
  loop body the table bet is the amount of the raise, and every other player of the game
  who has not folded and is not all-in has their id in \<open>playersToAct\<close>. If the action is
  not a raise, \<open>playersToAct\<close> is what it was with the id of \<open>P\<close> deleted and nothing
  added (as a set: the old set without the id of \<open>P\<close>): the pending set only shrinks, and
  the actor leaves it.
\<close>

theorem raise_reopens_action:
  assumes "distinct (map pid (players g))"
    and "reachable g st"
    and "at (players (rgame st)) (currentIdx st) = Some P"
    and "finished (act (getActivePlayers (players g)) st P action) = Some st'"
  shows "(\<forall>amount. action = Raise amount \<longrightarrow>
            g_currentBet (rgame st') = amount
          \<and> (\<forall>q \<in> set (players (rgame st')).
                pid q \<noteq> pid P \<and> \<not> hasFolded q \<and> \<not> isInAllIn q
                \<longrightarrow> pid q \<in> set (playersToAct st')))
       \<and> ((\<forall>amount. action \<noteq> Raise amount) \<longrightarrow>
            playersToAct st' = set_delete (pid P) (playersToAct st)
          \<and> set (playersToAct st') = set (playersToAct st) - {pid P}
          \<and> set (playersToAct st') \<subseteq> set (playersToAct st))"
proof (intro conjI allI impI)
  fix amount assume r: "action = Raise amount"
  from act_finished [OF assms(4)] r obtain P' where
    pa: "processAction (rgame st) P (Raise amount) (nat (currentIdx st)) = (P', rgame st', None)"
    and ro: "reopen (getActivePlayers (players g)) (rgame st') P'
               (set_delete (pid P') (playersToAct st)) = Inr (playersToAct st')"
    by auto
  from pa show "g_currentBet (rgame st') = amount"
    by (rule processAction_raise_bet)
  note a = at_Some [OF assms(3)]
  note inv = reachable_players [OF assms(2)]
  have len: "length (players (rgame st)) = length (players g)"
    using inv by (metis length_map)
  note pp = processAction_players [OF pa conjunct1 [OF a] conjunct2 [OF a]]
  have len': "length (players (rgame st')) = length (players g)"
    using pp(1) len by (metis length_map)
  show "\<forall>q \<in> set (players (rgame st')).
          pid q \<noteq> pid P \<and> \<not> hasFolded q \<and> \<not> isInAllIn q \<longrightarrow> pid q \<in> set (playersToAct st')"
  proof (intro ballI impI)
    fix q assume q: "q \<in> set (players (rgame st'))"
      and c: "pid q \<noteq> pid P \<and> \<not> hasFolded q \<and> \<not> isInAllIn q"
    from q obtain i where i: "i < length (players g)" "players (rgame st') ! i = q"
      using len' by (auto simp: in_set_conv_nth)
    let ?p = "players g ! i"
    have nf: "\<not> hasFolded ?p" using pp(2) inv i c len by auto
    then have mem: "?p \<in> set (getActivePlayers (players g))"
      using i(1) by (simp add: getActivePlayers_def)
    have "map pid (players (rgame st')) ! i = map pid (players g) ! i"
      using pp(1) inv by simp
    then have id: "pid ?p = pid q" using i len' by simp
    have "distinct (map pid (players (rgame st')))" using pp(1) inv assms(1) by simp
    from find_by_key [OF this q]
    have f: "find (\<lambda>pl. pid pl = pid ?p) (players (rgame st')) = Some q" by (simp add: id)
    have "pid ?p \<noteq> pid P'" using id c pp(3) by simp
    from reopen_adds [OF ro mem this f] c id show "pid q \<in> set (playersToAct st')" by simp
  qed
next
  assume n: "\<forall>amount. action \<noteq> Raise amount"
  from act_finished [OF assms(4)] obtain P' where
    pa: "processAction (rgame st) P action (nat (currentIdx st)) = (P', rgame st', None)"
    and ta: "case action of
               Raise amount \<Rightarrow>
                 reopen (getActivePlayers (players g)) (rgame st') P'
                   (set_delete (pid P') (playersToAct st)) = Inr (playersToAct st')
             | _ \<Rightarrow> playersToAct st' = set_delete (pid P') (playersToAct st)"
    by blast
  note a = at_Some [OF assms(3)]
  have "pid P' = pid P"
    by (rule processAction_players(3) [OF pa conjunct1 [OF a] conjunct2 [OF a]])
  with ta n show eq: "playersToAct st' = set_delete (pid P) (playersToAct st)"
    by (cases action) simp_all
  from eq show "set (playersToAct st') = set (playersToAct st) - {pid P}"
    by (auto simp: set_delete_def)
  from eq show "set (playersToAct st') \<subseteq> set (playersToAct st)"
    by (auto simp: set_delete_def)
qed


theorem raise_reopens_action_witness:
  "\<exists>st1 st2.
      act (getActivePlayers (players preflop_game)) (initialState preflop_game) carol (Call 20)
        = Continue st1
    \<and> playersToAct (initialState preflop_game) = [''id-1'', ''id-2'', ''id-3'']
    \<and> playersToAct st1 = [''id-1'', ''id-2'']
    \<and> reachable preflop_game st1
    \<and> at (players (rgame st1)) (currentIdx st1) = Some (alice\<lparr>chips := 990, currentBet := 10\<rparr>)
    \<and> finished (act (getActivePlayers (players preflop_game)) st1
                  (alice\<lparr>chips := 990, currentBet := 10\<rparr>) (Raise 40)) = Some st2
    \<and> g_currentBet (rgame st2) = 40
    \<and> ''id-2'' \<in> set (playersToAct st2)
    \<and> ''id-3'' \<in> set (playersToAct st2)"
proof -
  let ?aps = "getActivePlayers (players preflop_game)"
  let ?st0 = "initialState preflop_game"
  let ?alice = "alice\<lparr>chips := 990, currentBet := 10\<rparr>"
  let ?st1 = "the (finished (act ?aps ?st0 carol (Call 20)))"
  let ?st2 = "the (finished (act ?aps ?st1 ?alice (Raise 40)))"
  have d: "distinct (map pid (players preflop_game))" by code_simp
  have "1 < length (getActivePlayers (players preflop_game))" by code_simp
  then have r0: "reachable preflop_game ?st0" by (rule reachable.start)
  have p0: "playersToAct ?st0 = [''id-1'', ''id-2'', ''id-3'']" by code_simp
  then have ne: "playersToAct ?st0 \<noteq> []" by simp
  have a0: "at (players (rgame ?st0)) (currentIdx ?st0) = Some carol" by code_simp
  have c1: "act ?aps ?st0 carol (Call 20) = Continue ?st1" by code_simp
  have f1: "finished (act ?aps ?st0 carol (Call 20)) = Some ?st1" by code_simp
  have r1: "reachable preflop_game ?st1"
    by (rule reachable.turn [OF r0 ne a0 skipSeat_never c1])
  have nr: "\<forall>amount. Call 20 \<noteq> Raise amount" by simp
  note t0 = raise_reopens_action [OF d r0 a0 f1]
  have "playersToAct ?st1 = set_delete (pid carol) (playersToAct ?st0)"
    by (rule conjunct1 [OF mp [OF conjunct2 [OF t0] nr]])
  moreover have "set_delete (pid carol) [''id-1'', ''id-2'', ''id-3''] = [''id-1'', ''id-2'']"
    by code_simp
  ultimately have p1: "playersToAct ?st1 = [''id-1'', ''id-2'']" by (simp add: p0)
  have a1: "at (players (rgame ?st1)) (currentIdx ?st1) = Some ?alice" by code_simp
  have f2: "finished (act ?aps ?st1 ?alice (Raise 40)) = Some ?st2" by code_simp
  have q2: "\<lparr>pid = ''id-2'', name = ''Bob'', chips = 980, hand = [], currentBet = 20,
              hasFolded = False, isInAllIn = False, frozen = True\<rparr> \<in> set (players (rgame ?st2))"
    and q3: "\<lparr>pid = ''id-3'', name = ''Carol'', chips = 980, hand = [], currentBet = 20,
              hasFolded = False, isInAllIn = False, frozen = True\<rparr> \<in> set (players (rgame ?st2))"
    and i: "pid ?alice = ''id-1''"
    by code_simp+
  note t1 = mp [OF spec [OF conjunct1 [OF raise_reopens_action [OF d r1 a1 f2]], of 40] refl]
  note bet = conjunct1 [OF t1]
  note readd = conjunct2 [OF t1, rule_format]
  have m2: "''id-2'' \<in> set (playersToAct ?st2)"
    using readd [OF q2] by (simp add: i)
  have m3: "''id-3'' \<in> set (playersToAct ?st2)"
    using readd [OF q3] by (simp add: i)
  show ?thesis
    by (intro exI [of _ ?st1] exI [of _ ?st2] conjI)
       (rule c1 p0 p1 r1 a1 f2 bet m2 m3)+
qed

text \<open>
  Claim C2 (the code departs from it). The loop tests \<^verbatim>\<open>player.folded || player.allIn\<close>,
  two properties no player has, so no seat is ever skipped. Pre-flop with three players,
  blinds posted by Alice (small) and Bob (big): Carol folds, Alice calls, Bob raises to 40,
  which leaves Alice to act; the loop then comes to Carol's seat and asks her, a folded
  player, for an action (she answers with a check here) before it reaches Alice. The list
  gives the name and the folded flag of each player asked, in order.
\<close>

theorem folded_player_is_asked:
  "map_option (\<lambda>(g, ps, e). (map (\<lambda>p. (name p, hasFolded p)) ps, e))
     (bettingRound [Fold, Call 10, Raise 40, Check, Call 20] preflop_game)
   = Some ([(''Carol'', False), (''Alice'', False), (''Bob'', False), (''Carol'', True),
            (''Alice'', False)], None)"
  by code_simp



section \<open>Straights\<close>

lemma map_insort_key: "map f (insort_key f x xs) = insort (f x) (map f xs)"
  by (induction xs) auto

lemma map_sort_key: "map f (sort_key f xs) = sort (map f xs)"
  by (induction xs) (simp_all add: map_insort_key)

lemma values_sortAscending: "map cvalue (sortAscending cs) = sort (map cvalue cs)"
  by (simp add: sortAscending_def map_sort_key)

lemma len5: "length xs = 5 \<Longrightarrow> \<exists>a b c d e. xs = [a, b, c, d, e]"
  by (auto simp: eval_nat_numeral length_Suc_conv)

lemma upt4: "[0..<4] = [0, 1, 2, 3]"
  by (simp add: eval_nat_numeral upt_rec)

lemma at5:
  "at [a, b, c, d, e] 0 = Some a" "at [a, b, c, d, e] 1 = Some b"
  "at [a, b, c, d, e] 2 = Some c" "at [a, b, c, d, e] 3 = Some d"
  "at [a, b, c, d, e] 4 = Some e"
  by (simp_all add: at_def)

lemma differByOne5:
  "differByOne [a, b, c, d, e] =
     (int b - int a = 1 \<and> int c - int b = 1 \<and> int d - int c = 1 \<and> int e - int d = 1)"
  by (simp add: differByOne_def upt4)

lemma isStraight_five:
  assumes "sortAscending cs = [a, b, c, d, e]"
  shows "isStraight cs = ([a, b, c, d, e], Inr (straightValues (map cvalue [a, b, c, d, e])))"
  using assms
  by (simp add: isStraight_def Let_def at5 straightValues_def differByOne5)


lemma every_same_hd:
  "everyAfterFirst (\<lambda>crd prev. f crd = f prev) (x # cs) \<longleftrightarrow> (\<forall>y \<in> set cs. f y = f x)"
proof (induction cs arbitrary: x)
  case Nil
  show ?case by simp
next
  case (Cons c cs)
  have "everyAfterFirst (\<lambda>crd prev. f crd = f prev) (x # c # cs)
          \<longleftrightarrow> f c = f x \<and> (\<forall>y \<in> set cs. f y = f c)"
    using Cons.IH [of c] by simp
  also have "\<dots> \<longleftrightarrow> (\<forall>y \<in> set (c # cs). f y = f x)" by auto
  finally show ?case .
qed

lemma every_same:
  "everyAfterFirst (\<lambda>crd prev. f crd = f prev) cs \<longleftrightarrow> (\<forall>x \<in> set cs. \<forall>y \<in> set cs. f x = f y)"
proof (cases cs)
  case Nil
  then show ?thesis by simp
next
  case (Cons x xs)
  have "(\<forall>y \<in> set xs. f y = f x) \<longleftrightarrow> (\<forall>a \<in> set (x # xs). \<forall>b \<in> set (x # xs). f a = f b)"
    by (metis list.set_intros(1) set_ConsD set_subset_Cons subsetD)
  then show ?thesis unfolding Cons every_same_hd .
qed

lemma isFlush_same_suit: "isFlush cs \<longleftrightarrow> (\<forall>x \<in> set cs. \<forall>y \<in> set cs. csuit x = csuit y)"
  unfolding isFlush_def by (rule every_same)

lemma isFlush_sortAscending: "isFlush (sortAscending cs) = isFlush cs"
  by (simp add: isFlush_same_suit sortAscending_def)

lemma nth_opt_map: "map_option f (nth_opt xs i) = nth_opt (map f xs) i"
  by (simp add: nth_opt_def)


lemma counts_of_straight:
  assumes "straightValues (map cvalue [a, b, c, d, e])"
  shows "map snd (countByRank [a, b, c, d, e]) = [1, 1, 1, 1, 1]"
proof -
  from assms consider
    (run) "cvalue b = cvalue a + 1" "cvalue c = cvalue a + 2" "cvalue d = cvalue a + 3"
          "cvalue e = cvalue a + 4"
  | (wheel) "cvalue a = 2" "cvalue b = 3" "cvalue c = 4" "cvalue d = 5" "cvalue e = 14"
    by (auto simp: straightValues_def differByOne5)
  then show ?thesis
    by cases (simp_all add: countByRank_def)
qed

lemma getRank_of_straight:
  assumes "sortAscending cs = [a, b, c, d, e]"
    and "straightValues (map cvalue [a, b, c, d, e])"
  shows "snd (getRank cs) =
           Inr (if isFlush cs then (if cvalue a = 10 \<and> cvalue e = 14 then ROYAL_FLUSH
                                    else STRAIGHT_FLUSH)
                else STRAIGHT)"
proof -
  have fl: "isFlush [a, b, c, d, e] = isFlush cs"
    using isFlush_sortAscending [of cs] assms(1) by simp
  note ones = counts_of_straight [OF assms(2)]
  have k: "\<not> isOfKind 4 (countByRank [a, b, c, d, e])"
    by (simp add: isOfKind_def ones)
  have k': "\<not> isFullHouse [a, b, c, d, e] (countByRank [a, b, c, d, e])"
    unfolding isFullHouse_def Let_def nth_opt_map ones by (simp add: nth_opt_def)
  show ?thesis
    using k k' fl assms(2)
    by (simp add: getRank_def isStraight_five [OF assms(1)] Let_def isFlushRoyal_def at5)
qed

lemma getRank_of_other:
  assumes "sortAscending cs = [a, b, c, d, e]"
    and "\<not> straightValues (map cvalue [a, b, c, d, e])"
  shows "\<exists>r. snd (getRank cs) = Inr r \<and> r \<noteq> STRAIGHT \<and> r \<noteq> STRAIGHT_FLUSH \<and> r \<noteq> ROYAL_FLUSH"
  using assms(2)
  by (simp add: getRank_def isStraight_five [OF assms(1)] Let_def
        HIGH_CARD_def PAIR_def TWO_PAIR_def THREE_OF_KIND_def STRAIGHT_def FLUSH_def
        FULL_HOUSE_def FOUR_OF_KIND_def STRAIGHT_FLUSH_def ROYAL_FLUSH_def)


lemma wheel_hand_cards:
  "map (\<lambda>(r, s). createCard r s)
     [(''A'', Spades), (''2'', Hearts), (''3'', Diamonds), (''4'', Clubs), (''5'', Spades)]
   = map Inr wheel_hand"
  by code_simp

text \<open>
  Claim C7. For every five-card hand, the straight test of \<open>getRank\<close> (\<open>isStraight\<close>,
  the flag \<^verbatim>\<open>AreStraight\<close>) holds exactly when the values sorted ascending differ by
  exactly 1 between consecutive positions or are exactly 2, 3, 4, 5, 14. Accordingly
  \<open>getRank\<close> returns a straight rank (Straight, or Straight Flush or Royal Flush when the
  five cards also share a suit) exactly for those hands, and the rank Straight itself
  exactly for those of them that are not a flush. On the hand ace of spades, 2 of hearts,
  3 of diamonds, 4 of clubs, 5 of spades, \<open>getRank\<close> returns Straight.
\<close>

theorem straight_classification:
  assumes "length cs = 5"
  shows "snd (isStraight cs) = Inr (straightValues (sort (map cvalue cs)))
       \<and> ((\<exists>r \<in> {STRAIGHT, STRAIGHT_FLUSH, ROYAL_FLUSH}. snd (getRank cs) = Inr r)
              \<longleftrightarrow> straightValues (sort (map cvalue cs)))
       \<and> (snd (getRank cs) = Inr STRAIGHT
              \<longleftrightarrow> straightValues (sort (map cvalue cs)) \<and> \<not> isFlush cs)
       \<and> snd (getRank wheel_hand) = Inr STRAIGHT"
proof -
  have "length (sortAscending cs) = 5" using assms by (simp add: sortAscending_def)
  from len5 [OF this] obtain a b c d e where s: "sortAscending cs = [a, b, c, d, e]" by blast
  have vs: "sort (map cvalue cs) = map cvalue [a, b, c, d, e]"
    using values_sortAscending [of cs] s by simp
  have ne: "STRAIGHT \<noteq> STRAIGHT_FLUSH" "STRAIGHT \<noteq> ROYAL_FLUSH"
    by (simp_all add: STRAIGHT_def STRAIGHT_FLUSH_def ROYAL_FLUSH_def)
  have 1: "snd (isStraight cs) = Inr (straightValues (sort (map cvalue cs)))"
    unfolding vs by (simp add: isStraight_five [OF s])
  have 23: "((\<exists>r \<in> {STRAIGHT, STRAIGHT_FLUSH, ROYAL_FLUSH}. snd (getRank cs) = Inr r)
              \<longleftrightarrow> straightValues (sort (map cvalue cs)))
       \<and> (snd (getRank cs) = Inr STRAIGHT
              \<longleftrightarrow> straightValues (sort (map cvalue cs)) \<and> \<not> isFlush cs)"
  proof (cases "straightValues (map cvalue [a, b, c, d, e])")
    case True
    from getRank_of_straight [OF s True] True ne show ?thesis
      unfolding vs by (cases "isFlush cs") auto
  next
    case False
    from getRank_of_other [OF s False] False show ?thesis
      unfolding vs by auto
  qed
  have 4: "snd (getRank wheel_hand) = Inr STRAIGHT" by code_simp
  from 1 23 4 show ?thesis by blast
qed

theorem straight_classification_witness:
  "length wheel_hand = 5
   \<and> snd (isStraight wheel_hand) = Inr True
   \<and> (\<exists>r \<in> {STRAIGHT, STRAIGHT_FLUSH, ROYAL_FLUSH}. snd (getRank wheel_hand) = Inr r)"
proof -
  have l: "length wheel_hand = 5" by code_simp
  have v: "straightValues (sort (map cvalue wheel_hand))" by code_simp
  from straight_classification [OF l] v l show ?thesis by simp
qed



section \<open>The best hand and the showdown\<close>

lemma allocAll_spec:
  "allocAll xs h = (rs, h') \<Longrightarrow> h' = h @ xs \<and> (\<forall>x \<in> set rs. length h \<le> x \<and> x < length h')"
proof (induction xs arbitrary: h rs h')
  case Nil
  then show ?case by simp
next
  case (Cons x xs)
  obtain rs2 h2 where r: "allocAll xs (h @ [x]) = (rs2, h2)" by (cases "allocAll xs (h @ [x])")
  from Cons.IH [OF r] have "h2 = (h @ [x]) @ xs"
    and "\<forall>y \<in> set rs2. length (h @ [x]) \<le> y \<and> y < length h2"
    by auto
  with Cons.prems r show ?case
    by (fastforce simp: alloc_def)
qed

lemma foldl_invariant:
  "I s \<Longrightarrow> (\<And>s x. x \<in> set xs \<Longrightarrow> I s \<Longrightarrow> I (f s x)) \<Longrightarrow> I (foldl f s xs)"
  by (induction xs arbitrary: s) auto

lemma getAllCombinations_allocates:
  "getAllCombinations r k h = (refs, h') \<Longrightarrow>
     (\<exists>ext. h' = h @ ext) \<and> (\<forall>x \<in> set refs. x = r \<or> length h \<le> x)"
proof (induction k arbitrary: r h refs h')
  case 0
  then show ?case by (simp add: getAllCombinations.simps [of r 0 h] Let_def)
next
  case (Suc k)
  let ?cs = "h ! r"
  let ?body = "\<lambda>acc i.
                let (head, h1) = alloc (slice ?cs (int i) (int i + 1)) (snd acc);
                    (rest, h2) = alloc (slice_from ?cs (int i + 1)) h1;
                    (tail, h3) = getAllCombinations rest k h2;
                    (combos, h4) = allocAll (map (\<lambda>t. (h3 ! head) @ (h3 ! t)) tail) h3
                in (fst acc @ combos, h4)"
  let ?I = "\<lambda>acc. (\<exists>ext. snd acc = h @ ext) \<and> (\<forall>x \<in> set (fst acc). length h \<le> x)"
  have step: "?I (?body acc i)" if "?I acc" for acc i
  proof -
    obtain hd1 h1 where a1: "alloc (slice ?cs (int i) (int i + 1)) (snd acc) = (hd1, h1)"
      by (cases "alloc (slice ?cs (int i) (int i + 1)) (snd acc)")
    obtain rest h2 where a2: "alloc (slice_from ?cs (int i + 1)) h1 = (rest, h2)"
      by (cases "alloc (slice_from ?cs (int i + 1)) h1")
    obtain tail h3 where a3: "getAllCombinations rest k h2 = (tail, h3)"
      by (cases "getAllCombinations rest k h2")
    obtain combos h4 where a4: "allocAll (map (\<lambda>t. (h3 ! hd1) @ (h3 ! t)) tail) h3 = (combos, h4)"
      by (cases "allocAll (map (\<lambda>t. (h3 ! hd1) @ (h3 ! t)) tail) h3")
    from that obtain e0 where e0: "snd acc = h @ e0" by blast
    from a1 have e1: "h1 = snd acc @ [slice ?cs (int i) (int i + 1)]" by (auto simp: alloc_def)
    from a2 have e2: "h2 = h1 @ [slice_from ?cs (int i + 1)]" by (auto simp: alloc_def)
    from Suc.IH [OF a3] obtain e3 where e3: "h3 = h2 @ e3" by blast
    from allocAll_spec [OF a4] have e4: "h4 = h3 @ map (\<lambda>t. (h3 ! hd1) @ (h3 ! t)) tail"
      and c: "\<forall>x \<in> set combos. length h3 \<le> x"
      by simp_all
    have b: "?body acc i = (fst acc @ combos, h4)" by (simp add: a1 a2 a3 a4)
    have "length h \<le> length h3" by (simp add: e0 e1 e2 e3)
    with c have "\<forall>x \<in> set combos. length h \<le> x" by auto
    moreover have "\<exists>ext. h4 = h @ ext" by (simp add: e0 e1 e2 e3 e4)
    ultimately show ?thesis using that unfolding b by auto
  qed
  have loop: "?I (foldl ?body ([], h) xs)" for xs
    by (rule foldl_invariant) (simp, rule step)
  from Suc.prems show ?case
    using loop [of "[0..<length ?cs - Suc k + 1]"]
    by (subst (asm) getAllCombinations.simps)
       (auto simp: Let_def simp del: upt_Suc upt.simps split: if_splits dest!: allocAll_spec)
qed


lemma compareOfKind_result: "compareOfKind a b rk h = Some c \<Longrightarrow> c = a \<or> c = b"
  by (auto simp: compareOfKind_def comparePairs_def compareTwoPairs_def compareThreeOfKind_def
        compareFourOfKind_def Let_def split: option.splits if_splits)

lemma compareWithSameRank_frame:
  assumes "compareWithSameRank a (Some b) rk h = (h', res)" and "n \<le> a" and "n \<le> b"
  shows "take n h' = take n h \<and> (\<forall>c. res = Inr c \<longrightarrow> c = a \<or> c = b)"
  using assms
  by (auto simp: compareWithSameRank_def Let_def
        split: option.splits sum.splits bool.splits dest: compareOfKind_result)

lemma getRankAt_frame: "getRankAt r h = (h', res) \<Longrightarrow> n \<le> r \<Longrightarrow> take n h' = take n h"
  by (auto simp: getRankAt_def split: prod.splits)

lemma bestStep_frame:
  assumes "take n (fst s) = h" and "\<forall>acc. snd s = Inr acc \<longrightarrow> n \<le> bcards acc" and "n \<le> cur"
  shows "take n (fst (bestStep s cur)) = h
       \<and> (\<forall>acc. snd (bestStep s cur) = Inr acc \<longrightarrow> n \<le> bcards acc)"
proof (cases s)
  case (Pair hh res)
  show ?thesis
  proof (cases res)
    case (Inl e)
    with Pair assms show ?thesis by simp
  next
    case (Inr acc)
    obtain h1 r1 where g: "getRankAt cur hh = (h1, r1)" by (cases "getRankAt cur hh")
    from getRankAt_frame [OF g assms(3)] assms(1) Pair have t1: "take n h1 = h" by simp
    show ?thesis
    proof (cases r1)
      case (Inl e)
      with Pair Inr g t1 show ?thesis by simp
    next
      case newRank: (Inr newRank)
      obtain h2 r2 where c: "compareWithSameRank cur (Some (bcards acc)) (Some newRank) h1 = (h2, r2)"
        by (cases "compareWithSameRank cur (Some (bcards acc)) (Some newRank) h1")
      have "n \<le> bcards acc" using assms(2) Pair Inr by simp
      from compareWithSameRank_frame [OF c assms(3) this] t1
      have t2: "take n h2 = h" and r: "\<forall>c. r2 = Inr c \<longrightarrow> c = cur \<or> c = bcards acc" by simp_all
      show ?thesis
        using Pair Inr g newRank c t1 t2 r assms(2,3)
        by (auto split: sum.splits)
    qed
  qed
qed

lemma bestFold_frame:
  assumes "take n (fst s) = h" and "\<forall>acc. snd s = Inr acc \<longrightarrow> n \<le> bcards acc"
    and "\<forall>cur \<in> set combos. n \<le> cur"
  shows "take n (fst (foldl bestStep s combos)) = h"
  using assms
proof (induction combos arbitrary: s)
  case Nil
  then show ?case by simp
next
  case (Cons cur combos)
  from bestStep_frame [OF Cons.prems(1,2), of cur] Cons.prems(3)
  have "take n (fst (bestStep s cur)) = h"
    and "\<forall>acc. snd (bestStep s cur) = Inr acc \<longrightarrow> n \<le> bcards acc" by simp_all
  from Cons.IH [OF this] Cons.prems(3) show ?case by simp
qed

text \<open>
  Claim C10. \<open>bestRank\<close> leaves its two input arrays as they were: after the call each
  holds the same cards in the same order, and so does every array that existed before the
  call. The arrays \<open>bestRank\<close> sorts (in \<open>getRank\<close> and \<open>compareWithSameRank\<close>) are the
  copy \<^verbatim>\<open>[...playerCards, ...tableCards]\<close> and the combinations built from it, all
  allocated by the call itself. Cards are frozen values that no function assigns to.
\<close>

theorem bestRank_keeps_inputs:
  assumes "playerCards < length h" and "tableCards < length h"
  shows "fst (bestRank playerCards tableCards h) ! playerCards = h ! playerCards
       \<and> fst (bestRank playerCards tableCards h) ! tableCards = h ! tableCards
       \<and> take (length h) (fst (bestRank playerCards tableCards h)) = h"
proof -
  let ?h1 = "h @ [h ! playerCards @ h ! tableCards]"
  obtain combos h2 where g: "getAllCombinations (length h) 5 ?h1 = (combos, h2)"
    by (cases "getAllCombinations (length h) 5 ?h1")
  from getAllCombinations_allocates [OF g] obtain ext where
    e: "h2 = ?h1 @ ext" and c': "\<forall>x \<in> set combos. x = length h \<or> length ?h1 \<le> x" by blast
  from c' have c: "\<forall>x \<in> set combos. length h \<le> x" by auto
  have b: "bestRank playerCards tableCards h =
             foldl bestStep (h2 @ [[]], Inr \<lparr>bcards = length h2, brank = 0\<rparr>) combos"
    by (simp add: bestRank_def alloc_def g)
  have "take (length h) (fst (foldl bestStep (h2 @ [[]], Inr \<lparr>bcards = length h2, brank = 0\<rparr>) combos)) = h"
    by (rule bestFold_frame) (simp_all add: e c)
  then have t: "take (length h) (fst (bestRank playerCards tableCards h)) = h" by (simp only: b)
  have "take (length h) (fst (bestRank playerCards tableCards h)) ! r
          = fst (bestRank playerCards tableCards h) ! r" if "r < length h" for r
    using that by simp
  with t assms show ?thesis by metis
qed

theorem bestRank_keeps_inputs_witness:
  "fst (bestRank 0 1 hole_and_table) ! 0 = hole_and_table ! 0
   \<and> fst (bestRank 0 1 hole_and_table) ! 1 = hole_and_table ! 1
   \<and> map_sum id brank (snd (bestRank 0 1 hole_and_table)) = Inr ROYAL_FLUSH"
proof -
  have l: "0 < length hole_and_table" "1 < length hole_and_table"
    by (simp_all add: hole_and_table_def)
  have r: "map_sum id brank (snd (bestRank 0 1 hole_and_table)) = Inr ROYAL_FLUSH"
    by code_simp
  from bestRank_keeps_inputs [OF l] r show ?thesis by simp
qed

text \<open>
  Claim C6 (the code departs from it). Three evaluations of \<open>compareHands\<close> on showdown
  entries whose ranks are those \<open>getRank\<close> gives their cards.
  (1) Royal flush against two pairs of twos: the keys of the count object are compared as
  strings, the key 2 is greater than the key 10, so the winner is taken among the pairs: the
  entry returned has rank Pair although the rank Royal Flush is present.
  (2) A pair of threes against a pair of twos with an ace: \<open>compareHands\<close> calls
  \<open>compareWithSameRank\<close> without the rank, so only the cards sorted descending are
  compared and the pair of twos wins on its ace; with the rank, the same comparator
  returns the pair of threes.
  (3) Three entries of the top rank: the second turn of the loop reads \<^verbatim>\<open>bestHand\<close> of an
  array and \<open>compareWithSameRank\<close> raises a TypeError.
\<close>

theorem compareHands_wrong_winner:
  "map (\<lambda>e. snd (getRank (royal_store ! bestHand e))) royal_showdown
     = map (\<lambda>e. Inr (erank e)) royal_showdown
   \<and> snd (snd (compareHands royal_showdown royal_store))
     = Inr (Some \<lparr>eplayer = bob, bestHand = 1, erank = PAIR\<rparr>)
   \<and> map (\<lambda>e. snd (getRank (pairs_store ! bestHand e))) pairs_showdown
     = map (\<lambda>e. Inr (erank e)) pairs_showdown
   \<and> snd (snd (compareHands pairs_showdown pairs_store))
     = Inr (Some \<lparr>eplayer = bob, bestHand = 1, erank = PAIR\<rparr>)
   \<and> snd (compareWithSameRank 1 (Some 0) (Some PAIR) pairs_store) = Inr 0
   \<and> map (\<lambda>e. snd (getRank (tied_store ! bestHand e))) tied_showdown
     = map (\<lambda>e. Inr (erank e)) tied_showdown
   \<and> snd (snd (compareHands tied_showdown tied_store)) = Inl TypeError"
  by code_simp

end
